theory Spec2Isabelle
  imports Complex_Main "HOL-Library.AList" "HOL-Library.Multiset"
begin

section \<open>The in-memory entity store (storage.ts) and its request handlers (routes.ts)\<close>

text \<open>
  The store keeps one JavaScript \<open>Map\<close> per entity type. A \<open>Map\<close> iterates in
  insertion order and \<open>set\<close> on a key that is present keeps the key's position, so each
  collection is an association list: \<open>map_of\<close> is \<open>Map.get\<close>, \<open>AList.update\<close> is
  \<open>Map.set\<close>, \<open>map snd\<close> is \<open>Array.from(m.values())\<close>.

  Two effects of the runtime are inputs of the model: every call of \<open>randomUUID()\<close> is a
  parameter \<open>uuid\<close>, and every call of \<open>new Date()\<close> is a parameter holding the clock
  reading in milliseconds since the epoch.

  The shared schema (the entity types and the validators) is not part of the sources at
  hand. The record types below are modelled from the data model of the specification and
  from the fields the store reads and writes; a nullable column is an \<open>option\<close>.
  Validators are parameters of the handlers.
\<close>

text \<open>
  A \<open>date\<close> is a \<open>Date\<close> that is never invalid, given by its time value: a clock
  reading, or a date the schema has validated. A \<open>jsdate\<close> is what \<open>new Date(v)\<close> makes
  of a stored value \<open>v\<close> that a caller may have chosen freely: a time value, or
  \<open>Invalid Date\<close> (an unparsable string, a number beyond the 8.64e15 milliseconds a
  \<open>Date\<close> can hold, a \<open>Date\<close> that is invalid). A complaint's \<open>createdAt\<close> is such a value: \<open>PATCH /api/complaints/:id\<close>
  passes its body to the store unvalidated, and \<open>getComplaints\<close> reads the field back.
  A JavaScript \<open>number\<close>, as far as the store computes with one, is an integer or
  \<open>NaN\<close> (\<open>None\<close>).
\<close>

type_synonym date = int

datatype jsdate = Time int | Invalid_Date

type_synonym number = "int option"

subsection \<open>Entities\<close>

record user =
  u_id :: string
  u_username :: string
  u_password :: string
  u_email :: string
  u_phone :: string
  u_name :: string
  u_role :: string
  u_department :: "string option"
  u_isActive :: bool
  u_lastLogin :: "date option"
  u_createdAt :: "date option"

text \<open>\<open>InsertUser\<close>: the fields \<open>createUser\<close> gives a default are optional.\<close>

record insert_user =
  iu_username :: string
  iu_password :: string
  iu_email :: string
  iu_phone :: string
  iu_name :: string
  iu_role :: "string option"
  iu_department :: "string option"
  iu_isActive :: "bool option"

text \<open>\<open>Partial<User>\<close>: every field may be absent (\<open>None\<close>).\<close>

record partial_user =
  pu_id :: "string option"
  pu_username :: "string option"
  pu_password :: "string option"
  pu_email :: "string option"
  pu_phone :: "string option"
  pu_name :: "string option"
  pu_role :: "string option"
  pu_department :: "string option option"
  pu_isActive :: "bool option"
  pu_lastLogin :: "date option option"
  pu_createdAt :: "date option option"

record complaint =
  c_id :: string
  c_title :: string
  c_description :: string
  c_submitterId :: string
  c_status :: string
  c_priority :: string
  c_category :: "string option"
  c_assignedTo :: "string option"
  c_aiAnalysis :: "string option"
  c_aiRecommendations :: "string option"
  c_sentimentScore :: "real option"
  c_confidenceScore :: "real option"
  c_isAnonymous :: bool
  c_createdAt :: "jsdate option"
  c_updatedAt :: "date option"

record insert_complaint =
  ic_title :: string
  ic_description :: string
  ic_submitterId :: string
  ic_status :: "string option"
  ic_priority :: "string option"
  ic_category :: "string option"
  ic_assignedTo :: "string option"
  ic_isAnonymous :: "bool option"

record partial_complaint =
  pc_id :: "string option"
  pc_title :: "string option"
  pc_description :: "string option"
  pc_submitterId :: "string option"
  pc_status :: "string option"
  pc_priority :: "string option"
  pc_category :: "string option option"
  pc_assignedTo :: "string option option"
  pc_aiAnalysis :: "string option option"
  pc_aiRecommendations :: "string option option"
  pc_sentimentScore :: "real option option"
  pc_confidenceScore :: "real option option"
  pc_isAnonymous :: "bool option"
  pc_createdAt :: "jsdate option option"
  pc_updatedAt :: "date option option"

record meeting =
  m_id :: string
  m_title :: string
  m_description :: "string option"
  m_organizerId :: string
  m_attendeeIds :: "string list option"
  m_scheduledDate :: date
  m_duration :: int
  m_status :: string
  m_meetingLink :: "string option"
  m_relatedComplaintId :: "string option"
  m_createdAt :: "date option"

record insert_meeting =
  im_title :: string
  im_description :: "string option"
  im_organizerId :: string
  im_attendeeIds :: "string list option"
  im_scheduledDate :: date
  im_duration :: "int option"
  im_status :: "string option"
  im_meetingLink :: "string option"
  im_relatedComplaintId :: "string option"

record partial_meeting =
  pm_id :: "string option"
  pm_title :: "string option"
  pm_description :: "string option option"
  pm_organizerId :: "string option"
  pm_attendeeIds :: "string list option option"
  pm_scheduledDate :: "date option"
  pm_duration :: "int option"
  pm_status :: "string option"
  pm_meetingLink :: "string option option"
  pm_relatedComplaintId :: "string option option"
  pm_createdAt :: "date option option"

record scenario =
  sc_id :: string
  sc_scenario :: string
  sc_aiResponse :: "string option"
  sc_recommendedActions :: "string option"
  sc_riskLevel :: "string option"
  sc_createdAt :: "date option"

record insert_scenario =
  isc_scenario :: string

record partial_scenario =
  psc_id :: "string option"
  psc_scenario :: "string option"
  psc_aiResponse :: "string option option"
  psc_recommendedActions :: "string option option"
  psc_riskLevel :: "string option option"
  psc_createdAt :: "date option option"

record notification =
  n_id :: string
  n_userId :: string
  n_message :: string
  n_relatedEntityId :: "string option"
  n_relatedEntityType :: "string option"
  n_isRead :: bool
  n_createdAt :: "date option"

record insert_notification =
  in_userId :: string
  in_message :: string
  in_relatedEntityId :: "string option"
  in_relatedEntityType :: "string option"
  in_isRead :: "bool option"

text \<open>The state of a \<open>MemStorage\<close>: its maps, in insertion order.\<close>

record storage =
  users :: "(string \<times> user) list"
  complaints :: "(string \<times> complaint) list"
  meetings :: "(string \<times> meeting) list"
  scenarios :: "(string \<times> scenario) list"
  notifications :: "(string \<times> notification) list"

subsection \<open>JavaScript operators the store uses\<close>

text \<open>\<open>x || d\<close> on an optional string: absent, null and the empty string are falsy.\<close>

definition str_or :: "string option \<Rightarrow> string \<Rightarrow> string" where
  "str_or x d = (case x of None \<Rightarrow> d | Some v \<Rightarrow> if v = [] then d else v)"

text \<open>\<open>x || null\<close> on an optional string.\<close>

definition str_or_null :: "string option \<Rightarrow> string option" where
  "str_or_null x = (case x of None \<Rightarrow> None | Some v \<Rightarrow> if v = [] then None else Some v)"

text \<open>\<open>x || d\<close> on an optional number: absent, null and \<open>0\<close> are falsy.\<close>

definition num_or :: "int option \<Rightarrow> int \<Rightarrow> int" where
  "num_or x d = (case x of None \<Rightarrow> d | Some v \<Rightarrow> if v = 0 then d else v)"

text \<open>\<open>x ?? d\<close>: only absent and null take the default.\<close>

definition nullish_or :: "'a option \<Rightarrow> 'a \<Rightarrow> 'a" where
  "nullish_or x d = (case x of None \<Rightarrow> d | Some v \<Rightarrow> v)"

text \<open>
  One field of the object spread \<open>{ ...entity, ...updates }\<close>: a key the payload
  carries replaces the entity's, a key it lacks leaves the entity's value.
\<close>

definition spread :: "'a \<Rightarrow> 'a option \<Rightarrow> 'a" where
  "spread old upd = (case upd of None \<Rightarrow> old | Some v \<Rightarrow> v)"

text \<open>The time value of a nullable date that is never invalid (\<open>updatedAt\<close>, which only
  the clock writes): \<open>new Date(null)\<close> is the epoch.\<close>

definition getTime :: "date option \<Rightarrow> int" where
  "getTime d = (case d of None \<Rightarrow> 0 | Some t \<Rightarrow> t)"

text \<open>\<open>new Date(v).getTime()\<close> of a stored value: \<open>NaN\<close> for an invalid date.\<close>

definition Date_getTime :: "jsdate option \<Rightarrow> number" where
  "Date_getTime v =
     (case v of None \<Rightarrow> Some 0 | Some (Time t) \<Rightarrow> Some t | Some Invalid_Date \<Rightarrow> None)"


definition number_ge :: "number \<Rightarrow> number \<Rightarrow> bool" where
  "number_ge x y =
     (case x of None \<Rightarrow> False | Some a \<Rightarrow> (case y of None \<Rightarrow> False | Some b \<Rightarrow> b \<le> a))"

subsection \<open>Array.prototype.sort\<close>








subsection \<open>MemStorage: users\<close>

definition getUser :: "storage \<Rightarrow> string \<Rightarrow> user option" where
  "getUser s k = map_of (users s) k"

definition getUsers :: "storage \<Rightarrow> user list" where
  "getUsers s = map snd (users s)"

definition getUserByPhone :: "storage \<Rightarrow> string \<Rightarrow> user option" where
  "getUserByPhone s phone = find (\<lambda>u. u_phone u = phone) (map snd (users s))"

definition createUser :: "storage \<Rightarrow> insert_user \<Rightarrow> string \<Rightarrow> date \<Rightarrow> user \<times> storage" where
  "createUser s insertUser uuid now =
     (let user = \<lparr> u_id = uuid,
                   u_username = iu_username insertUser,
                   u_password = iu_password insertUser,
                   u_email = iu_email insertUser,
                   u_phone = iu_phone insertUser,
                   u_name = iu_name insertUser,
                   u_role = str_or (iu_role insertUser) ''employee'',
                   u_department = str_or_null (iu_department insertUser),
                   u_isActive = nullish_or (iu_isActive insertUser) True,
                   u_lastLogin = None,
                   u_createdAt = Some now \<rparr>
      in (user, s\<lparr> users := AList.update uuid user (users s) \<rparr>))"

definition merge_user :: "user \<Rightarrow> partial_user \<Rightarrow> user" where
  "merge_user user updates =
     \<lparr> u_id = spread (u_id user) (pu_id updates),
       u_username = spread (u_username user) (pu_username updates),
       u_password = spread (u_password user) (pu_password updates),
       u_email = spread (u_email user) (pu_email updates),
       u_phone = spread (u_phone user) (pu_phone updates),
       u_name = spread (u_name user) (pu_name updates),
       u_role = spread (u_role user) (pu_role updates),
       u_department = spread (u_department user) (pu_department updates),
       u_isActive = spread (u_isActive user) (pu_isActive updates),
       u_lastLogin = spread (u_lastLogin user) (pu_lastLogin updates),
       u_createdAt = spread (u_createdAt user) (pu_createdAt updates) \<rparr>"

definition updateUser :: "storage \<Rightarrow> string \<Rightarrow> partial_user \<Rightarrow> user option \<times> storage" where
  "updateUser s k updates =
     (case map_of (users s) k of
        None \<Rightarrow> (None, s)
      | Some user \<Rightarrow>
          (let updated = merge_user user updates
           in (Some updated, s\<lparr> users := AList.update k updated (users s) \<rparr>)))"

text \<open>The constructor: empty maps, then \<open>initializeDefaults\<close>, whose call of
  \<open>createUser\<close> runs to its end before the constructor returns (neither body reaches
  an \<open>await\<close> before the \<open>Map.set\<close>).\<close>

definition empty_storage :: storage where
  "empty_storage =
     \<lparr> users = [], complaints = [], meetings = [], scenarios = [], notifications = [] \<rparr>"

definition default_hr_manager :: insert_user where
  "default_hr_manager =
     \<lparr> iu_username = ''sarah.johnson'',
       iu_password = ''password123'',
       iu_email = ''sarah.johnson@company.com'',
       iu_phone = ''+1234567890'',
       iu_name = ''Sarah Johnson'',
       iu_role = Some ''hr_manager'',
       iu_department = Some ''Human Resources'',
       iu_isActive = None \<rparr>"

definition initializeDefaults :: "storage \<Rightarrow> string \<Rightarrow> date \<Rightarrow> storage" where
  "initializeDefaults s uuid now = snd (createUser s default_hr_manager uuid now)"

definition new_MemStorage :: "string \<Rightarrow> date \<Rightarrow> storage" where
  "new_MemStorage uuid now = initializeDefaults empty_storage uuid now"

subsection \<open>MemStorage: complaints\<close>


definition getComplaint :: "storage \<Rightarrow> string \<Rightarrow> complaint option" where
  "getComplaint s k = map_of (complaints s) k"

text \<open>\<open>createComplaint\<close> reads the clock twice: for \<open>createdAt\<close>, then for \<open>updatedAt\<close>.\<close>

definition createComplaint ::
  "storage \<Rightarrow> insert_complaint \<Rightarrow> string \<Rightarrow> date \<Rightarrow> date \<Rightarrow> complaint \<times> storage" where
  "createComplaint s insertComplaint uuid now1 now2 =
     (let complaint = \<lparr> c_id = uuid,
                        c_title = ic_title insertComplaint,
                        c_description = ic_description insertComplaint,
                        c_submitterId = ic_submitterId insertComplaint,
                        c_status = str_or (ic_status insertComplaint) ''open'',
                        c_priority = str_or (ic_priority insertComplaint) ''medium'',
                        c_category = ic_category insertComplaint,
                        c_assignedTo = str_or_null (ic_assignedTo insertComplaint),
                        c_aiAnalysis = None,
                        c_aiRecommendations = None,
                        c_sentimentScore = None,
                        c_confidenceScore = None,
                        c_isAnonymous = nullish_or (ic_isAnonymous insertComplaint) False,
                        c_createdAt = Some (Time now1),
                        c_updatedAt = Some now2 \<rparr>
      in (complaint, s\<lparr> complaints := AList.update uuid complaint (complaints s) \<rparr>))"

text \<open>\<open>{ ...complaint, ...updates, updatedAt: new Date() }\<close>: the clock reading comes
  after the payload in the object literal, so it replaces a payload's \<open>updatedAt\<close>.\<close>

definition merge_complaint :: "complaint \<Rightarrow> partial_complaint \<Rightarrow> date \<Rightarrow> complaint" where
  "merge_complaint complaint updates now =
     \<lparr> c_id = spread (c_id complaint) (pc_id updates),
       c_title = spread (c_title complaint) (pc_title updates),
       c_description = spread (c_description complaint) (pc_description updates),
       c_submitterId = spread (c_submitterId complaint) (pc_submitterId updates),
       c_status = spread (c_status complaint) (pc_status updates),
       c_priority = spread (c_priority complaint) (pc_priority updates),
       c_category = spread (c_category complaint) (pc_category updates),
       c_assignedTo = spread (c_assignedTo complaint) (pc_assignedTo updates),
       c_aiAnalysis = spread (c_aiAnalysis complaint) (pc_aiAnalysis updates),
       c_aiRecommendations = spread (c_aiRecommendations complaint) (pc_aiRecommendations updates),
       c_sentimentScore = spread (c_sentimentScore complaint) (pc_sentimentScore updates),
       c_confidenceScore = spread (c_confidenceScore complaint) (pc_confidenceScore updates),
       c_isAnonymous = spread (c_isAnonymous complaint) (pc_isAnonymous updates),
       c_createdAt = spread (c_createdAt complaint) (pc_createdAt updates),
       c_updatedAt = Some now \<rparr>"

definition updateComplaint ::
  "storage \<Rightarrow> string \<Rightarrow> partial_complaint \<Rightarrow> date \<Rightarrow> complaint option \<times> storage" where
  "updateComplaint s k updates now =
     (case map_of (complaints s) k of
        None \<Rightarrow> (None, s)
      | Some complaint \<Rightarrow>
          (let updated = merge_complaint complaint updates now
           in (Some updated, s\<lparr> complaints := AList.update k updated (complaints s) \<rparr>)))"

subsection \<open>MemStorage: meetings\<close>


definition getMeeting :: "storage \<Rightarrow> string \<Rightarrow> meeting option" where
  "getMeeting s k = map_of (meetings s) k"

definition createMeeting ::
  "storage \<Rightarrow> insert_meeting \<Rightarrow> string \<Rightarrow> date \<Rightarrow> meeting \<times> storage" where
  "createMeeting s insertMeeting uuid now =
     (let meeting = \<lparr> m_id = uuid,
                      m_title = im_title insertMeeting,
                      m_description = str_or_null (im_description insertMeeting),
                      m_organizerId = im_organizerId insertMeeting,
                      m_attendeeIds = im_attendeeIds insertMeeting,
                      m_scheduledDate = im_scheduledDate insertMeeting,
                      m_duration = num_or (im_duration insertMeeting) 30,
                      m_status = str_or (im_status insertMeeting) ''scheduled'',
                      m_meetingLink = str_or_null (im_meetingLink insertMeeting),
                      m_relatedComplaintId = str_or_null (im_relatedComplaintId insertMeeting),
                      m_createdAt = Some now \<rparr>
      in (meeting, s\<lparr> meetings := AList.update uuid meeting (meetings s) \<rparr>))"

definition merge_meeting :: "meeting \<Rightarrow> partial_meeting \<Rightarrow> meeting" where
  "merge_meeting meeting updates =
     \<lparr> m_id = spread (m_id meeting) (pm_id updates),
       m_title = spread (m_title meeting) (pm_title updates),
       m_description = spread (m_description meeting) (pm_description updates),
       m_organizerId = spread (m_organizerId meeting) (pm_organizerId updates),
       m_attendeeIds = spread (m_attendeeIds meeting) (pm_attendeeIds updates),
       m_scheduledDate = spread (m_scheduledDate meeting) (pm_scheduledDate updates),
       m_duration = spread (m_duration meeting) (pm_duration updates),
       m_status = spread (m_status meeting) (pm_status updates),
       m_meetingLink = spread (m_meetingLink meeting) (pm_meetingLink updates),
       m_relatedComplaintId = spread (m_relatedComplaintId meeting) (pm_relatedComplaintId updates),
       m_createdAt = spread (m_createdAt meeting) (pm_createdAt updates) \<rparr>"

definition updateMeeting ::
  "storage \<Rightarrow> string \<Rightarrow> partial_meeting \<Rightarrow> meeting option \<times> storage" where
  "updateMeeting s k updates =
     (case map_of (meetings s) k of
        None \<Rightarrow> (None, s)
      | Some meeting \<Rightarrow>
          (let updated = merge_meeting meeting updates
           in (Some updated, s\<lparr> meetings := AList.update k updated (meetings s) \<rparr>)))"

subsection \<open>MemStorage: scenarios and notifications\<close>

definition getScenario :: "storage \<Rightarrow> string \<Rightarrow> scenario option" where
  "getScenario s k = map_of (scenarios s) k"

definition createScenario ::
  "storage \<Rightarrow> insert_scenario \<Rightarrow> string \<Rightarrow> date \<Rightarrow> scenario \<times> storage" where
  "createScenario s insertScenario uuid now =
     (let scenario = \<lparr> sc_id = uuid,
                       sc_scenario = isc_scenario insertScenario,
                       sc_aiResponse = None,
                       sc_recommendedActions = None,
                       sc_riskLevel = None,
                       sc_createdAt = Some now \<rparr>
      in (scenario, s\<lparr> scenarios := AList.update uuid scenario (scenarios s) \<rparr>))"

definition merge_scenario :: "scenario \<Rightarrow> partial_scenario \<Rightarrow> scenario" where
  "merge_scenario scenario updates =
     \<lparr> sc_id = spread (sc_id scenario) (psc_id updates),
       sc_scenario = spread (sc_scenario scenario) (psc_scenario updates),
       sc_aiResponse = spread (sc_aiResponse scenario) (psc_aiResponse updates),
       sc_recommendedActions =
         spread (sc_recommendedActions scenario) (psc_recommendedActions updates),
       sc_riskLevel = spread (sc_riskLevel scenario) (psc_riskLevel updates),
       sc_createdAt = spread (sc_createdAt scenario) (psc_createdAt updates) \<rparr>"

definition updateScenario ::
  "storage \<Rightarrow> string \<Rightarrow> partial_scenario \<Rightarrow> scenario option \<times> storage" where
  "updateScenario s k updates =
     (case map_of (scenarios s) k of
        None \<Rightarrow> (None, s)
      | Some scenario \<Rightarrow>
          (let updated = merge_scenario scenario updates
           in (Some updated, s\<lparr> scenarios := AList.update k updated (scenarios s) \<rparr>)))"

definition createNotification ::
  "storage \<Rightarrow> insert_notification \<Rightarrow> string \<Rightarrow> date \<Rightarrow> notification \<times> storage" where
  "createNotification s insertNotification uuid now =
     (let notification =
            \<lparr> n_id = uuid,
              n_userId = in_userId insertNotification,
              n_message = in_message insertNotification,
              n_relatedEntityId = str_or_null (in_relatedEntityId insertNotification),
              n_relatedEntityType = str_or_null (in_relatedEntityType insertNotification),
              n_isRead = nullish_or (in_isRead insertNotification) False,
              n_createdAt = Some now \<rparr>
      in (notification,
          s\<lparr> notifications := AList.update uuid notification (notifications s) \<rparr>))"

text \<open>\<open>markNotificationRead\<close> writes \<open>isRead\<close> into the stored object itself.\<close>

definition markNotificationRead :: "storage \<Rightarrow> string \<Rightarrow> bool \<times> storage" where
  "markNotificationRead s k =
     (case map_of (notifications s) k of
        None \<Rightarrow> (False, s)
      | Some notification \<Rightarrow>
          (True, s\<lparr> notifications :=
                      AList.update k (notification\<lparr> n_isRead := True \<rparr>) (notifications s) \<rparr>))"

subsection \<open>Request handlers\<close>

text \<open>\<open>const { password: _, ...userWithoutPassword } = user\<close>: the user's fields but
  the password.\<close>

record user_without_password =
  w_id :: string
  w_username :: string
  w_email :: string
  w_phone :: string
  w_name :: string
  w_role :: string
  w_department :: "string option"
  w_isActive :: bool
  w_lastLogin :: "date option"
  w_createdAt :: "date option"

definition without_password :: "user \<Rightarrow> user_without_password" where
  "without_password user =
     \<lparr> w_id = u_id user, w_username = u_username user, w_email = u_email user,
       w_phone = u_phone user, w_name = u_name user, w_role = u_role user,
       w_department = u_department user, w_isActive = u_isActive user,
       w_lastLogin = u_lastLogin user, w_createdAt = u_createdAt user \<rparr>"

text \<open>A response: the status (\<open>res.json\<close> alone answers 200) and the JSON body.\<close>

datatype body =
    Message string
  | ComplaintBody complaint
  | UserMessage user_without_password string

record response =
  res_status :: nat
  res_body :: body

text \<open>The result of \<open>analyzeComplaint\<close>, as the handler reads it.\<close>

record analysis =
  a_category :: string
  a_priority :: string
  a_summary :: string
  a_recommendations :: "string list"
  a_sentiment :: real
  a_confidence :: real

text \<open>The payload the handler builds from an analysis; \<open>stringify\<close> is
  \<open>JSON.stringify\<close> on the list of recommendations.\<close>

definition analysis_updates :: "(string list \<Rightarrow> string) \<Rightarrow> analysis \<Rightarrow> partial_complaint" where
  "analysis_updates stringify a =
     \<lparr> pc_id = None, pc_title = None, pc_description = None, pc_submitterId = None,
       pc_status = None,
       pc_priority = Some (a_priority a),
       pc_category = Some (Some (a_category a)),
       pc_assignedTo = None,
       pc_aiAnalysis = Some (Some (a_summary a)),
       pc_aiRecommendations = Some (Some (stringify (a_recommendations a))),
       pc_sentimentScore = Some (Some (a_sentiment a)),
       pc_confidenceScore = Some (Some (a_confidence a)),
       pc_isAnonymous = None, pc_createdAt = None, pc_updatedAt = None \<rparr>"

text \<open>
  \<open>POST /api/complaints\<close>. \<open>parse\<close> is \<open>insertComplaintSchema.parse\<close> (\<open>None\<close>: it
  throws) and \<open>analyzeComplaint\<close> the call to the language-model service (\<open>None\<close>: it
  throws or its promise rejects); both are outside the sources at hand. The clock is read
  twice at creation and once at the annotating update. The handler is run without another
  request interleaved while it awaits the analysis.
\<close>

definition post_complaints ::
  "('b \<Rightarrow> insert_complaint option) \<Rightarrow> (string \<Rightarrow> string \<Rightarrow> analysis option) \<Rightarrow>
   (string list \<Rightarrow> string) \<Rightarrow> storage \<Rightarrow> 'b \<Rightarrow> string \<Rightarrow> date \<Rightarrow> date \<Rightarrow> date \<Rightarrow>
   response \<times> storage" where
  "post_complaints parse analyzeComplaint stringify s reqBody uuid now1 now2 now3 =
     (case parse reqBody of
        None \<Rightarrow> (\<lparr> res_status = 400, res_body = Message ''Invalid complaint data'' \<rparr>, s)
      | Some complaintData \<Rightarrow>
          (let (complaint, s1) = createComplaint s complaintData uuid now1 now2;
               s2 = (case analyzeComplaint (c_title complaint) (c_description complaint) of
                       None \<Rightarrow> s1
                     | Some a \<Rightarrow>
                         snd (updateComplaint s1 (c_id complaint)
                                (analysis_updates stringify a) now3))
           in (\<lparr> res_status = 201, res_body = ComplaintBody complaint \<rparr>, s2)))"

text \<open>\<open>PATCH /api/complaints/:id\<close>: the body is the payload, unvalidated.\<close>

definition patch_complaint ::
  "storage \<Rightarrow> string \<Rightarrow> partial_complaint \<Rightarrow> date \<Rightarrow> response \<times> storage" where
  "patch_complaint s k updates now =
     (case updateComplaint s k updates now of
        (None, s') \<Rightarrow> (\<lparr> res_status = 404, res_body = Message ''Complaint not found'' \<rparr>, s')
      | (Some complaint, s') \<Rightarrow> (\<lparr> res_status = 200, res_body = ComplaintBody complaint \<rparr>, s'))"

text \<open>\<open>POST /api/auth/login\<close>. \<open>!phone\<close> holds of an absent and of an empty string.\<close>

record login_body =
  lb_phone :: "string option"
  lb_password :: "string option"

definition falsy :: "string option \<Rightarrow> bool" where
  "falsy x = (case x of None \<Rightarrow> True | Some v \<Rightarrow> v = [])"

definition post_auth_login :: "storage \<Rightarrow> login_body \<Rightarrow> date \<Rightarrow> response \<times> storage" where
  "post_auth_login s reqBody now =
     (if falsy (lb_phone reqBody) \<or> falsy (lb_password reqBody)
      then (\<lparr> res_status = 400,
               res_body = Message ''Phone number and password are required'' \<rparr>, s)
      else
        (case find (\<lambda>u. Some (u_phone u) = lb_phone reqBody \<and>
                         Some (u_password u) = lb_password reqBody) (getUsers s) of
           None \<Rightarrow> (\<lparr> res_status = 401,
                       res_body = Message ''Invalid phone number or password'' \<rparr>, s)
         | Some user \<Rightarrow>
             if \<not> u_isActive user
             then (\<lparr> res_status = 401,
                      res_body = Message ''Invalid phone number or password'' \<rparr>, s)
             else
               (let s' = snd (updateUser s (u_id user)
                               \<lparr> pu_id = None, pu_username = None, pu_password = None,
                                 pu_email = None, pu_phone = None, pu_name = None,
                                 pu_role = None, pu_department = None, pu_isActive = None,
                                 pu_lastLogin = Some (Some now), pu_createdAt = None \<rparr>)
                in (\<lparr> res_status = 200,
                       res_body = UserMessage (without_password user) ''Login successful'' \<rparr>,
                    s'))))"

text \<open>\<open>POST /api/auth/register\<close>. \<open>parse\<close> is \<open>insertUserSchema.parse\<close>.\<close>

definition post_auth_register ::
  "('b \<Rightarrow> insert_user option) \<Rightarrow> storage \<Rightarrow> 'b \<Rightarrow> string \<Rightarrow> date \<Rightarrow> response \<times> storage" where
  "post_auth_register parse s reqBody uuid now =
     (case parse reqBody of
        None \<Rightarrow> (\<lparr> res_status = 400, res_body = Message ''Registration failed'' \<rparr>, s)
      | Some userData \<Rightarrow>
          (case find (\<lambda>u. u_phone u = iu_phone userData \<or> u_email u = iu_email userData)
                  (getUsers s) of
             Some existingUser \<Rightarrow>
               (\<lparr> res_status = 400,
                  res_body = Message (if u_phone existingUser = iu_phone userData
                                      then ''Phone number already registered''
                                      else ''Email already registered'') \<rparr>, s)
           | None \<Rightarrow>
               (let (user, s') = createUser s userData uuid now
                in (\<lparr> res_status = 201,
                       res_body = UserMessage (without_password user)
                                    ''Registration successful'' \<rparr>, s'))))"

subsection \<open>Identifiers and the lifetime of a store\<close>

text \<open>The keys of the five maps, and the \<open>id\<close> fields of the entities they hold.\<close>

definition all_keys :: "storage \<Rightarrow> string list" where
  "all_keys s =
     map fst (users s) @ map fst (complaints s) @ map fst (meetings s) @
     map fst (scenarios s) @ map fst (notifications s)"

definition all_ids :: "storage \<Rightarrow> string list" where
  "all_ids s =
     map (u_id \<circ> snd) (users s) @ map (c_id \<circ> snd) (complaints s) @
     map (m_id \<circ> snd) (meetings s) @ map (sc_id \<circ> snd) (scenarios s) @
     map (n_id \<circ> snd) (notifications s)"

text \<open>Every entity carries the key it is stored under.\<close>

definition ids_are_keys :: "storage \<Rightarrow> bool" where
  "ids_are_keys s \<longleftrightarrow>
     map (u_id \<circ> snd) (users s) = map fst (users s) \<and>
     map (c_id \<circ> snd) (complaints s) = map fst (complaints s) \<and>
     map (m_id \<circ> snd) (meetings s) = map fst (meetings s) \<and>
     map (sc_id \<circ> snd) (scenarios s) = map fst (scenarios s) \<and>
     map (n_id \<circ> snd) (notifications s) = map fst (notifications s)"

text \<open>
  The operations of \<open>IStorage\<close> that write, each with the readings of \<open>randomUUID()\<close>
  and of the clock it makes, and the store after a sequence of them.
\<close>

datatype operation =
    CreateUser insert_user string date
  | UpdateUser string partial_user
  | CreateComplaint insert_complaint string date date
  | UpdateComplaint string partial_complaint date
  | CreateMeeting insert_meeting string date
  | UpdateMeeting string partial_meeting
  | CreateScenario insert_scenario string date
  | UpdateScenario string partial_scenario
  | CreateNotification insert_notification string date
  | MarkNotificationRead string

fun apply_operation :: "storage \<Rightarrow> operation \<Rightarrow> storage" where
  "apply_operation s (CreateUser insertUser uuid now) = snd (createUser s insertUser uuid now)"
| "apply_operation s (UpdateUser k updates) = snd (updateUser s k updates)"
| "apply_operation s (CreateComplaint insertComplaint uuid now1 now2) =
     snd (createComplaint s insertComplaint uuid now1 now2)"
| "apply_operation s (UpdateComplaint k updates now) = snd (updateComplaint s k updates now)"
| "apply_operation s (CreateMeeting insertMeeting uuid now) =
     snd (createMeeting s insertMeeting uuid now)"
| "apply_operation s (UpdateMeeting k updates) = snd (updateMeeting s k updates)"
| "apply_operation s (CreateScenario insertScenario uuid now) =
     snd (createScenario s insertScenario uuid now)"
| "apply_operation s (UpdateScenario k updates) = snd (updateScenario s k updates)"
| "apply_operation s (CreateNotification insertNotification uuid now) =
     snd (createNotification s insertNotification uuid now)"
| "apply_operation s (MarkNotificationRead k) = snd (markNotificationRead s k)"

fun lifetime :: "storage \<Rightarrow> operation list \<Rightarrow> storage" where
  "lifetime s [] = s"
| "lifetime s (operation # operations) = lifetime (apply_operation s operation) operations"

text \<open>
  What the uniqueness of identifiers rests on: \<open>randomUUID()\<close> returns an identifier
  that is not yet a key of the store, and no update payload has an \<open>id\<close> field.
\<close>

fun id_safe :: "storage \<Rightarrow> operation \<Rightarrow> bool" where
  "id_safe s (CreateUser insertUser uuid now) = (uuid \<notin> set (all_keys s))"
| "id_safe s (UpdateUser k updates) = (pu_id updates = None)"
| "id_safe s (CreateComplaint insertComplaint uuid now1 now2) = (uuid \<notin> set (all_keys s))"
| "id_safe s (UpdateComplaint k updates now) = (pc_id updates = None)"
| "id_safe s (CreateMeeting insertMeeting uuid now) = (uuid \<notin> set (all_keys s))"
| "id_safe s (UpdateMeeting k updates) = (pm_id updates = None)"
| "id_safe s (CreateScenario insertScenario uuid now) = (uuid \<notin> set (all_keys s))"
| "id_safe s (UpdateScenario k updates) = (psc_id updates = None)"
| "id_safe s (CreateNotification insertNotification uuid now) = (uuid \<notin> set (all_keys s))"
| "id_safe s (MarkNotificationRead k) = True"

fun id_safe_lifetime :: "storage \<Rightarrow> operation list \<Rightarrow> bool" where
  "id_safe_lifetime s [] = True"
| "id_safe_lifetime s (operation # operations) =
     (id_safe s operation \<and> id_safe_lifetime (apply_operation s operation) operations)"

subsection \<open>The order of a listing\<close>



subsection \<open>Concrete payloads and stores\<close>

text \<open>The empty payloads \<open>{}\<close>; a single-field payload updates one field of them.\<close>

definition no_updates :: partial_complaint where
  "no_updates =
     \<lparr> pc_id = None, pc_title = None, pc_description = None, pc_submitterId = None,
       pc_status = None, pc_priority = None, pc_category = None, pc_assignedTo = None,
       pc_aiAnalysis = None, pc_aiRecommendations = None, pc_sentimentScore = None,
       pc_confidenceScore = None, pc_isAnonymous = None, pc_createdAt = None,
       pc_updatedAt = None \<rparr>"

definition no_user_updates :: partial_user where
  "no_user_updates =
     \<lparr> pu_id = None, pu_username = None, pu_password = None, pu_email = None,
       pu_phone = None, pu_name = None, pu_role = None, pu_department = None,
       pu_isActive = None, pu_lastLogin = None, pu_createdAt = None \<rparr>"

definition no_scenario_updates :: partial_scenario where
  "no_scenario_updates =
     \<lparr> psc_id = None, psc_scenario = None, psc_aiResponse = None,
       psc_recommendedActions = None, psc_riskLevel = None, psc_createdAt = None \<rparr>"

definition no_meeting_updates :: partial_meeting where
  "no_meeting_updates =
     \<lparr> pm_id = None, pm_title = None, pm_description = None, pm_organizerId = None,
       pm_attendeeIds = None, pm_scheduledDate = None, pm_duration = None,
       pm_status = None, pm_meetingLink = None, pm_relatedComplaintId = None,
       pm_createdAt = None \<rparr>"

text \<open>The request of the specification's example, and a store holding its complaint:
  a fresh store (seeded at clock reading 5) in which the complaint was created under the
  identifier \<open>c1\<close> at clock reading 10.\<close>

definition harassment :: insert_complaint where
  "harassment =
     \<lparr> ic_title = ''Harassment'', ic_description = ''...'', ic_submitterId = ''u1'',
       ic_status = None, ic_priority = None, ic_category = None, ic_assignedTo = None,
       ic_isAnonymous = None \<rparr>"

definition harassment_complaint :: complaint where
  "harassment_complaint =
     \<lparr> c_id = ''c1'', c_title = ''Harassment'', c_description = ''...'',
       c_submitterId = ''u1'', c_status = ''open'', c_priority = ''medium'',
       c_category = None, c_assignedTo = None, c_aiAnalysis = None,
       c_aiRecommendations = None, c_sentimentScore = None, c_confidenceScore = None,
       c_isAnonymous = False, c_createdAt = Some (Time 10), c_updatedAt = Some 10 \<rparr>"

definition one_complaint_store :: storage where
  "one_complaint_store =
     snd (createComplaint (new_MemStorage ''u0'' 5) harassment ''c1'' 10 10)"

text \<open>Two accounts with one phone number and different passwords, as two calls of
  \<open>POST /api/users\<close> (which stores what it is given) leave them in a fresh store.\<close>

definition account :: "string \<Rightarrow> string \<Rightarrow> insert_user" where
  "account name password =
     \<lparr> iu_username = name, iu_password = password, iu_email = name @ ''@company.com'',
       iu_phone = ''+15550100'', iu_name = name, iu_role = None, iu_department = None,
       iu_isActive = None \<rparr>"

definition sarah :: user where
  "sarah = \<lparr> u_id = ''u0'', u_username = ''sarah.johnson'', u_password = ''password123'',
             u_email = ''sarah.johnson@company.com'', u_phone = ''+1234567890'',
             u_name = ''Sarah Johnson'', u_role = ''hr_manager'',
             u_department = Some ''Human Resources'', u_isActive = True,
             u_lastLogin = None, u_createdAt = Some 5 \<rparr>"

definition ann :: user where
  "ann = \<lparr> u_id = ''u1'', u_username = ''ann'', u_password = ''pw-ann'',
           u_email = ''ann@company.com'', u_phone = ''+15550100'', u_name = ''ann'',
           u_role = ''employee'', u_department = None, u_isActive = True,
           u_lastLogin = None, u_createdAt = Some 6 \<rparr>"

definition shared_phone_store :: storage where
  "shared_phone_store =
     lifetime (new_MemStorage ''u0'' 5)
       [CreateUser (account ''ann'' ''pw-ann'') ''u1'' 6,
        CreateUser (account ''bob'' ''pw-bob'') ''u2'' 7]"

text \<open>A fresh store in which one account was created inactive.\<close>

definition inactive_store :: storage where
  "inactive_store =
     lifetime (new_MemStorage ''u0'' 5)
       [CreateUser ((account ''cat'' ''pw-cat'')\<lparr> iu_isActive := Some False \<rparr>) ''u3'' 8]"

text \<open>A fresh store after \<open>updateUser\<close> with a payload whose \<open>id\<close> is \<open>zz\<close>: the
  seeded user, still stored under \<open>u0\<close>, carries the identifier \<open>zz\<close>.\<close>

definition renamed_store :: storage where
  "renamed_store =
     lifetime (new_MemStorage ''u0'' 5)
       [UpdateUser ''u0'' (no_user_updates\<lparr> pu_id := Some ''zz'' \<rparr>)]"

text \<open>A store with an entity of each type.\<close>

definition review_meeting :: insert_meeting where
  "review_meeting =
     \<lparr> im_title = ''Review'', im_description = None, im_organizerId = ''u0'',
       im_attendeeIds = Some [''u1''], im_scheduledDate = 100, im_duration = None,
       im_status = None, im_meetingLink = None, im_relatedComplaintId = Some ''c1'' \<rparr>"

definition populated_store :: storage where
  "populated_store =
     lifetime (new_MemStorage ''u0'' 5)
       [CreateComplaint harassment ''c1'' 10 10,
        CreateMeeting review_meeting ''m1'' 11,
        CreateScenario \<lparr> isc_scenario = ''A dispute'' \<rparr> ''s1'' 12,
        CreateNotification
          \<lparr> in_userId = ''u0'', in_message = ''New complaint'', in_relatedEntityId = Some ''c1'',
            in_relatedEntityType = Some ''complaint'', in_isRead = None \<rparr> ''n1'' 13]"

text \<open>
  Three complaints, created at the clock readings 10, 20 and 30; and the same store after
  \<open>PATCH /api/complaints/c2\<close> with a body whose \<open>createdAt\<close> is not a date (for
  instance \<open>{"createdAt": "soon"}\<close>), at clock reading 40.
\<close>

definition three_complaints_store :: storage where
  "three_complaints_store =
     lifetime (new_MemStorage ''u0'' 5)
       [CreateComplaint harassment ''c1'' 10 10,
        CreateComplaint harassment ''c2'' 20 20,
        CreateComplaint harassment ''c3'' 30 30]"

definition invalid_date_store :: storage where
  "invalid_date_store =
     snd (patch_complaint three_complaints_store ''c2''
            (no_updates\<lparr> pc_createdAt := Some (Some Invalid_Date) \<rparr>) 40)"

definition complaint_at :: "string \<Rightarrow> jsdate \<Rightarrow> date \<Rightarrow> complaint" where
  "complaint_at k created updated =
     harassment_complaint\<lparr> c_id := k, c_createdAt := Some created, c_updatedAt := Some updated \<rparr>"

definition analysis_example :: analysis where
  "analysis_example =
     \<lparr> a_category = ''harassment'', a_priority = ''high'', a_summary = ''summary'',
       a_recommendations = [''meet''], a_sentiment = -1, a_confidence = 1 \<rparr>"

section \<open>Properties\<close>

subsection \<open>Auxiliary facts\<close>

lemmas js_defs = str_or_def str_or_null_def num_or_def nullish_or_def spread_def getTime_def
  falsy_def

lemmas create_defs = createUser_def createComplaint_def createMeeting_def createScenario_def
  createNotification_def

lemmas update_defs = updateUser_def updateComplaint_def updateMeeting_def updateScenario_def
  markNotificationRead_def

lemmas merge_defs = merge_user_def merge_complaint_def merge_meeting_def merge_scenario_def

lemmas example_defs = new_MemStorage_def initializeDefaults_def empty_storage_def
  default_hr_manager_def one_complaint_store_def harassment_def harassment_complaint_def
  shared_phone_store_def inactive_store_def account_def analysis_example_def sarah_def ann_def
  populated_store_def review_meeting_def three_complaints_store_def invalid_date_store_def
  complaint_at_def renamed_store_def

text \<open>\<open>Map.set\<close> on a new key appends; on a present key it keeps the keys in place.\<close>

lemma alist_update_absent:
  "map_of al k = None \<Longrightarrow> AList.update k v al = al @ [(k, v)]"
  by (induction al) (auto split: if_splits)

lemma alist_update_keys_present:
  "map_of al k = Some w \<Longrightarrow> map fst (AList.update k v al) = map fst al"
  by (induction al) (auto split: if_splits)

lemma alist_update_same_field:
  "map_of al k = Some w \<Longrightarrow> f v = f w \<Longrightarrow>
   map (f \<circ> snd) (AList.update k v al) = map (f \<circ> snd) al"
  by (induction al) (auto split: if_splits)

lemma alist_not_key: "k \<notin> set (map fst al) \<Longrightarrow> map_of al k = None"
  by (simp add: map_of_eq_None_iff)

lemma new_MemStorage_eq:
  "new_MemStorage uuid now =
     \<lparr> users = [(uuid, \<lparr> u_id = uuid, u_username = ''sarah.johnson'',
                  u_password = ''password123'', u_email = ''sarah.johnson@company.com'',
                  u_phone = ''+1234567890'', u_name = ''Sarah Johnson'',
                  u_role = ''hr_manager'', u_department = Some ''Human Resources'',
                  u_isActive = True, u_lastLogin = None, u_createdAt = Some now \<rparr>)],
       complaints = [], meetings = [], scenarios = [], notifications = [] \<rparr>"
  by (simp add: example_defs createUser_def js_defs Let_def)

lemma seeded_store_eq:
  "new_MemStorage ''u0'' 5 =
     \<lparr> users = [(''u0'', sarah)], complaints = [], meetings = [], scenarios = [],
       notifications = [] \<rparr>"
  by (simp add: new_MemStorage_eq sarah_def)

lemma create_harassment:
  "createComplaint (new_MemStorage ''u0'' 5) harassment ''c1'' 10 10 =
     (harassment_complaint, one_complaint_store)"
  by (simp add: example_defs createComplaint_def createUser_def js_defs Let_def)

lemma one_complaint_store_eq:
  "one_complaint_store =
     \<lparr> users = users (new_MemStorage ''u0'' 5),
       complaints = [(''c1'', harassment_complaint)], meetings = [], scenarios = [],
       notifications = [] \<rparr>"
  by (simp add: example_defs createComplaint_def createUser_def js_defs Let_def)

lemma shared_phone_store_eq:
  "shared_phone_store =
     \<lparr> users =
         [(''u0'', sarah), (''u1'', ann),
          (''u2'', \<lparr> u_id = ''u2'', u_username = ''bob'', u_password = ''pw-bob'',
                    u_email = ''bob@company.com'', u_phone = ''+15550100'', u_name = ''bob'',
                    u_role = ''employee'', u_department = None, u_isActive = True,
                    u_lastLogin = None, u_createdAt = Some 7 \<rparr>)],
       complaints = [], meetings = [], scenarios = [], notifications = [] \<rparr>"
  by (simp add: shared_phone_store_def seeded_store_eq createUser_def account_def js_defs
      Let_def ann_def)

lemma inactive_store_eq:
  "inactive_store =
     \<lparr> users =
         [(''u0'', sarah),
          (''u3'', \<lparr> u_id = ''u3'', u_username = ''cat'', u_password = ''pw-cat'',
                    u_email = ''cat@company.com'', u_phone = ''+15550100'', u_name = ''cat'',
                    u_role = ''employee'', u_department = None, u_isActive = False,
                    u_lastLogin = None, u_createdAt = Some 8 \<rparr>)],
       complaints = [], meetings = [], scenarios = [], notifications = [] \<rparr>"
  by (simp add: inactive_store_def seeded_store_eq createUser_def account_def js_defs Let_def)

lemma renamed_store_eq:
  "renamed_store =
     \<lparr> users = [(''u0'', sarah\<lparr> u_id := ''zz'' \<rparr>)], complaints = [], meetings = [],
       scenarios = [], notifications = [] \<rparr>"
  by (simp add: renamed_store_def seeded_store_eq updateUser_def merge_user_def
      no_user_updates_def spread_def Let_def sarah_def)

lemma populated_store_eq:
  "populated_store =
     \<lparr> users = [(''u0'', sarah)],
       complaints = [(''c1'', harassment_complaint)],
       meetings =
         [(''m1'', \<lparr> m_id = ''m1'', m_title = ''Review'', m_description = None,
                    m_organizerId = ''u0'', m_attendeeIds = Some [''u1''],
                    m_scheduledDate = 100, m_duration = 30, m_status = ''scheduled'',
                    m_meetingLink = None, m_relatedComplaintId = Some ''c1'',
                    m_createdAt = Some 11 \<rparr>)],
       scenarios =
         [(''s1'', \<lparr> sc_id = ''s1'', sc_scenario = ''A dispute'', sc_aiResponse = None,
                    sc_recommendedActions = None, sc_riskLevel = None,
                    sc_createdAt = Some 12 \<rparr>)],
       notifications =
         [(''n1'', \<lparr> n_id = ''n1'', n_userId = ''u0'', n_message = ''New complaint'',
                    n_relatedEntityId = Some ''c1'', n_relatedEntityType = Some ''complaint'',
                    n_isRead = False, n_createdAt = Some 13 \<rparr>)] \<rparr>"
  by (simp add: populated_store_def seeded_store_eq create_defs harassment_def
      harassment_complaint_def review_meeting_def js_defs Let_def)



lemma get_after_update:
  "getComplaint s k = Some complaint \<Longrightarrow>
   getComplaint (snd (updateComplaint s k updates now)) k =
     Some (merge_complaint complaint updates now)"
  by (simp add: getComplaint_def updateComplaint_def Let_def AList.update_conv')

lemma get_harassment: "getComplaint one_complaint_store ''c1'' = Some harassment_complaint"
  by (simp add: one_complaint_store_eq getComplaint_def)

subsection \<open>The sort\<close>












subsection \<open>Identifiers\<close>

text \<open>An operation that is safe for identifiers keeps every entity under its own
  identifier and the keys of the store distinct.\<close>

lemma all_keys_member:
  "uuid \<notin> set (all_keys s) \<Longrightarrow>
     map_of (users s) uuid = None \<and> map_of (complaints s) uuid = None \<and>
     map_of (meetings s) uuid = None \<and> map_of (scenarios s) uuid = None \<and>
     map_of (notifications s) uuid = None"
  by (simp add: all_keys_def map_of_eq_None_iff)

lemma create_keeps_ids:
  assumes "ids_are_keys s" and "distinct (all_keys s)" and "uuid \<notin> set (all_keys s)"
  shows "ids_are_keys (snd (createUser s insertUser uuid now)) \<and>
         distinct (all_keys (snd (createUser s insertUser uuid now)))"
    and "ids_are_keys (snd (createComplaint s insertComplaint uuid now now2)) \<and>
         distinct (all_keys (snd (createComplaint s insertComplaint uuid now now2)))"
    and "ids_are_keys (snd (createMeeting s insertMeeting uuid now)) \<and>
         distinct (all_keys (snd (createMeeting s insertMeeting uuid now)))"
    and "ids_are_keys (snd (createScenario s insertScenario uuid now)) \<and>
         distinct (all_keys (snd (createScenario s insertScenario uuid now)))"
    and "ids_are_keys (snd (createNotification s insertNotification uuid now)) \<and>
         distinct (all_keys (snd (createNotification s insertNotification uuid now)))"
proof -
  note absent = all_keys_member [OF assms(3)]
  have k: "uuid \<notin> fst ` set (users s)" "uuid \<notin> fst ` set (complaints s)"
    "uuid \<notin> fst ` set (meetings s)" "uuid \<notin> fst ` set (scenarios s)"
    "uuid \<notin> fst ` set (notifications s)"
    using assms(3) by (simp_all add: all_keys_def)
  show "ids_are_keys (snd (createUser s insertUser uuid now)) \<and>
         distinct (all_keys (snd (createUser s insertUser uuid now)))"
    using assms(1,2) k absent
    by (simp add: createUser_def Let_def alist_update_absent ids_are_keys_def all_keys_def)
  show "ids_are_keys (snd (createComplaint s insertComplaint uuid now now2)) \<and>
         distinct (all_keys (snd (createComplaint s insertComplaint uuid now now2)))"
    using assms(1,2) k absent
    by (simp add: createComplaint_def Let_def alist_update_absent ids_are_keys_def all_keys_def)
  show "ids_are_keys (snd (createMeeting s insertMeeting uuid now)) \<and>
         distinct (all_keys (snd (createMeeting s insertMeeting uuid now)))"
    using assms(1,2) k absent
    by (simp add: createMeeting_def Let_def alist_update_absent ids_are_keys_def all_keys_def)
  show "ids_are_keys (snd (createScenario s insertScenario uuid now)) \<and>
         distinct (all_keys (snd (createScenario s insertScenario uuid now)))"
    using assms(1,2) k absent
    by (simp add: createScenario_def Let_def alist_update_absent ids_are_keys_def all_keys_def)
  show "ids_are_keys (snd (createNotification s insertNotification uuid now)) \<and>
         distinct (all_keys (snd (createNotification s insertNotification uuid now)))"
    using assms(1,2) k absent
    by (simp add: createNotification_def Let_def alist_update_absent ids_are_keys_def
        all_keys_def)
qed

lemma update_keeps_ids:
  assumes "ids_are_keys s" and "distinct (all_keys s)"
  shows "pu_id user_updates = None \<Longrightarrow>
         ids_are_keys (snd (updateUser s k user_updates)) \<and>
         distinct (all_keys (snd (updateUser s k user_updates)))"
    and "pc_id updates = None \<Longrightarrow>
         ids_are_keys (snd (updateComplaint s k updates now)) \<and>
         distinct (all_keys (snd (updateComplaint s k updates now)))"
    and "pm_id meeting_updates = None \<Longrightarrow>
         ids_are_keys (snd (updateMeeting s k meeting_updates)) \<and>
         distinct (all_keys (snd (updateMeeting s k meeting_updates)))"
    and "psc_id scenario_updates = None \<Longrightarrow>
         ids_are_keys (snd (updateScenario s k scenario_updates)) \<and>
         distinct (all_keys (snd (updateScenario s k scenario_updates)))"
    and "ids_are_keys (snd (markNotificationRead s k)) \<and>
         distinct (all_keys (snd (markNotificationRead s k)))"
proof -
  show "pu_id user_updates = None \<Longrightarrow>
         ids_are_keys (snd (updateUser s k user_updates)) \<and>
         distinct (all_keys (snd (updateUser s k user_updates)))"
  proof (cases "map_of (users s) k")
    case None
    then show ?thesis using assms by (simp add: updateUser_def)
  next
    case (Some w)
    assume "pu_id user_updates = None"
    then have "u_id (merge_user w user_updates) = u_id w"
      by (simp add: merge_user_def spread_def)
    then show ?thesis
      using assms Some alist_update_keys_present [OF Some]
        alist_update_same_field [OF Some, of u_id "merge_user w user_updates"]
      by (simp add: updateUser_def Let_def ids_are_keys_def all_keys_def)
  qed
  show "pc_id updates = None \<Longrightarrow>
         ids_are_keys (snd (updateComplaint s k updates now)) \<and>
         distinct (all_keys (snd (updateComplaint s k updates now)))"
  proof (cases "map_of (complaints s) k")
    case None
    then show ?thesis using assms by (simp add: updateComplaint_def)
  next
    case (Some w)
    assume "pc_id updates = None"
    then have "c_id (merge_complaint w updates now) = c_id w"
      by (simp add: merge_complaint_def spread_def)
    then show ?thesis
      using assms Some alist_update_keys_present [OF Some]
        alist_update_same_field [OF Some, of c_id "merge_complaint w updates now"]
      by (simp add: updateComplaint_def Let_def ids_are_keys_def all_keys_def)
  qed
  show "pm_id meeting_updates = None \<Longrightarrow>
         ids_are_keys (snd (updateMeeting s k meeting_updates)) \<and>
         distinct (all_keys (snd (updateMeeting s k meeting_updates)))"
  proof (cases "map_of (meetings s) k")
    case None
    then show ?thesis using assms by (simp add: updateMeeting_def)
  next
    case (Some w)
    assume "pm_id meeting_updates = None"
    then have "m_id (merge_meeting w meeting_updates) = m_id w"
      by (simp add: merge_meeting_def spread_def)
    then show ?thesis
      using assms Some alist_update_keys_present [OF Some]
        alist_update_same_field [OF Some, of m_id "merge_meeting w meeting_updates"]
      by (simp add: updateMeeting_def Let_def ids_are_keys_def all_keys_def)
  qed
  show "psc_id scenario_updates = None \<Longrightarrow>
         ids_are_keys (snd (updateScenario s k scenario_updates)) \<and>
         distinct (all_keys (snd (updateScenario s k scenario_updates)))"
  proof (cases "map_of (scenarios s) k")
    case None
    then show ?thesis using assms by (simp add: updateScenario_def)
  next
    case (Some w)
    assume "psc_id scenario_updates = None"
    then have "sc_id (merge_scenario w scenario_updates) = sc_id w"
      by (simp add: merge_scenario_def spread_def)
    then show ?thesis
      using assms Some alist_update_keys_present [OF Some]
        alist_update_same_field [OF Some, of sc_id "merge_scenario w scenario_updates"]
      by (simp add: updateScenario_def Let_def ids_are_keys_def all_keys_def)
  qed
  show "ids_are_keys (snd (markNotificationRead s k)) \<and>
         distinct (all_keys (snd (markNotificationRead s k)))"
  proof (cases "map_of (notifications s) k")
    case None
    then show ?thesis using assms by (simp add: markNotificationRead_def)
  next
    case (Some w)
    have "n_id (w\<lparr> n_isRead := True \<rparr>) = n_id w" by simp
    then show ?thesis
      using assms Some alist_update_keys_present [OF Some]
        alist_update_same_field [OF Some, of n_id "w\<lparr> n_isRead := True \<rparr>"]
      by (simp add: markNotificationRead_def ids_are_keys_def all_keys_def)
  qed
qed

lemma id_safe_step:
  assumes "ids_are_keys s" and "distinct (all_keys s)" and "id_safe s operation"
  shows "ids_are_keys (apply_operation s operation) \<and>
         distinct (all_keys (apply_operation s operation))"
  using assms(3) create_keeps_ids [OF assms(1,2)] update_keeps_ids [OF assms(1,2)]
  by (cases operation) simp_all

lemma id_safe_lifetime_invariant:
  "ids_are_keys s \<Longrightarrow> distinct (all_keys s) \<Longrightarrow> id_safe_lifetime s operations \<Longrightarrow>
   ids_are_keys (lifetime s operations) \<and> distinct (all_keys (lifetime s operations))"
proof (induction operations arbitrary: s)
  case Nil
  then show ?case by simp
next
  case (Cons operation operations)
  then show ?case using id_safe_step [of s operation] by simp
qed

lemma ids_are_keys_all_ids: "ids_are_keys s \<Longrightarrow> all_ids s = all_keys s"
  by (simp add: ids_are_keys_def all_ids_def all_keys_def)

text \<open>
  The claim C1 as it is written fails: \<open>updateComplaint\<close> spreads the payload over the
  stored complaint, and \<open>Partial<Complaint>\<close> has an \<open>id\<close> field. The complaint created
  under \<open>c1\<close> is returned by the update, and by a later \<open>getComplaint\<close> of \<open>c1\<close>, with
  the identifier \<open>c2\<close> of the payload.
\<close>

theorem update_overwrites_id:
  "c_id (fst (createComplaint (new_MemStorage ''u0'' 5) harassment ''c1'' 10 10)) = ''c1'' \<and>
   getComplaint (snd (createComplaint (new_MemStorage ''u0'' 5) harassment ''c1'' 10 10)) ''c1''
     = Some harassment_complaint \<and>
   c_id harassment_complaint = ''c1'' \<and>
   fst (updateComplaint one_complaint_store ''c1'' (no_updates\<lparr> pc_id := Some ''c2'' \<rparr>) 20) =
     Some (harassment_complaint\<lparr> c_id := ''c2'', c_updatedAt := Some 20 \<rparr>) \<and>
   getComplaint
     (snd (updateComplaint one_complaint_store ''c1'' (no_updates\<lparr> pc_id := Some ''c2'' \<rparr>) 20))
     ''c1'' = Some (harassment_complaint\<lparr> c_id := ''c2'', c_updatedAt := Some 20 \<rparr>) \<and>
   c_id (harassment_complaint\<lparr> c_id := ''c2'', c_updatedAt := Some 20 \<rparr>) \<noteq> ''c1''"
  by (simp add: create_harassment get_harassment)
    (simp add: one_complaint_store_eq getComplaint_def updateComplaint_def
      merge_complaint_def no_updates_def spread_def harassment_complaint_def Let_def)

text \<open>
  C1, amended. For every entity (user, complaint, meeting, scenario, notification) the
  identifier assigned at creation is the generated one, and the entity is stored under
  it. Across the lifetime of a store in which every generated identifier is one not yet
  in use and no update payload has an \<open>id\<close> field, every entity carries the key it was
  created under, and the identifiers of all entities are distinct. For every user,
  complaint, meeting or scenario present in the store and every update payload, the
  update leaves the keys as they were and the entity it returns, which a later get of the
  same key returns too, has the \<open>id\<close> the stored entity had when the payload has no
  \<open>id\<close> field, and the payload's \<open>id\<close> when it has one. Marking a notification read
  changes its \<open>isRead\<close> only.
\<close>

theorem identifiers_unique_and_kept:
  "(id_safe_lifetime (new_MemStorage uuid0 now0) operations \<longrightarrow>
      ids_are_keys (lifetime (new_MemStorage uuid0 now0) operations) \<and>
      distinct (all_ids (lifetime (new_MemStorage uuid0 now0) operations))) \<and>
   (u_id (fst (createUser s insertUser uuid now)) = uuid \<and>
    getUser (snd (createUser s insertUser uuid now)) uuid =
      Some (fst (createUser s insertUser uuid now))) \<and>
   (c_id (fst (createComplaint s insertComplaint uuid now now2)) = uuid \<and>
    getComplaint (snd (createComplaint s insertComplaint uuid now now2)) uuid =
      Some (fst (createComplaint s insertComplaint uuid now now2))) \<and>
   (m_id (fst (createMeeting s insertMeeting uuid now)) = uuid \<and>
    getMeeting (snd (createMeeting s insertMeeting uuid now)) uuid =
      Some (fst (createMeeting s insertMeeting uuid now))) \<and>
   (sc_id (fst (createScenario s insertScenario uuid now)) = uuid \<and>
    getScenario (snd (createScenario s insertScenario uuid now)) uuid =
      Some (fst (createScenario s insertScenario uuid now))) \<and>
   (n_id (fst (createNotification s insertNotification uuid now)) = uuid \<and>
    map_of (notifications (snd (createNotification s insertNotification uuid now))) uuid =
      Some (fst (createNotification s insertNotification uuid now))) \<and>
   (getUser s uk = Some user \<longrightarrow>
      map fst (users (snd (updateUser s uk user_updates))) = map fst (users s) \<and>
      (\<exists>updated. fst (updateUser s uk user_updates) = Some updated \<and>
         getUser (snd (updateUser s uk user_updates)) uk = Some updated \<and>
         u_id updated = (case pu_id user_updates of None \<Rightarrow> u_id user | Some v \<Rightarrow> v))) \<and>
   (getComplaint s ck = Some complaint \<longrightarrow>
      map fst (complaints (snd (updateComplaint s ck updates now))) = map fst (complaints s) \<and>
      (\<exists>updated. fst (updateComplaint s ck updates now) = Some updated \<and>
         getComplaint (snd (updateComplaint s ck updates now)) ck = Some updated \<and>
         c_id updated = (case pc_id updates of None \<Rightarrow> c_id complaint | Some v \<Rightarrow> v))) \<and>
   (getMeeting s mk = Some meeting \<longrightarrow>
      map fst (meetings (snd (updateMeeting s mk meeting_updates))) = map fst (meetings s) \<and>
      (\<exists>updated. fst (updateMeeting s mk meeting_updates) = Some updated \<and>
         getMeeting (snd (updateMeeting s mk meeting_updates)) mk = Some updated \<and>
         m_id updated = (case pm_id meeting_updates of None \<Rightarrow> m_id meeting | Some v \<Rightarrow> v))) \<and>
   (getScenario s sk = Some scenario \<longrightarrow>
      map fst (scenarios (snd (updateScenario s sk scenario_updates))) = map fst (scenarios s) \<and>
      (\<exists>updated. fst (updateScenario s sk scenario_updates) = Some updated \<and>
         getScenario (snd (updateScenario s sk scenario_updates)) sk = Some updated \<and>
         sc_id updated =
           (case psc_id scenario_updates of None \<Rightarrow> sc_id scenario | Some v \<Rightarrow> v))) \<and>
   (map_of (notifications s) nk = Some notification \<longrightarrow>
      map fst (notifications (snd (markNotificationRead s nk))) = map fst (notifications s) \<and>
      map_of (notifications (snd (markNotificationRead s nk))) nk =
        Some (notification\<lparr> n_isRead := True \<rparr>))"
proof -
  have fresh: "ids_are_keys (new_MemStorage uuid0 now0)"
    "distinct (all_keys (new_MemStorage uuid0 now0))"
    by (simp_all add: new_MemStorage_eq ids_are_keys_def all_keys_def)
  have life: "id_safe_lifetime (new_MemStorage uuid0 now0) operations \<longrightarrow>
      ids_are_keys (lifetime (new_MemStorage uuid0 now0) operations) \<and>
      distinct (all_ids (lifetime (new_MemStorage uuid0 now0) operations))"
  proof
    assume "id_safe_lifetime (new_MemStorage uuid0 now0) operations"
    from id_safe_lifetime_invariant [OF fresh this]
    show "ids_are_keys (lifetime (new_MemStorage uuid0 now0) operations) \<and>
      distinct (all_ids (lifetime (new_MemStorage uuid0 now0) operations))"
      by (simp add: ids_are_keys_all_ids)
  qed
  have create: "u_id (fst (createUser s insertUser uuid now)) = uuid"
    "getUser (snd (createUser s insertUser uuid now)) uuid =
      Some (fst (createUser s insertUser uuid now))"
    "c_id (fst (createComplaint s insertComplaint uuid now now2)) = uuid"
    "getComplaint (snd (createComplaint s insertComplaint uuid now now2)) uuid =
      Some (fst (createComplaint s insertComplaint uuid now now2))"
    "m_id (fst (createMeeting s insertMeeting uuid now)) = uuid"
    "getMeeting (snd (createMeeting s insertMeeting uuid now)) uuid =
      Some (fst (createMeeting s insertMeeting uuid now))"
    "sc_id (fst (createScenario s insertScenario uuid now)) = uuid"
    "getScenario (snd (createScenario s insertScenario uuid now)) uuid =
      Some (fst (createScenario s insertScenario uuid now))"
    "n_id (fst (createNotification s insertNotification uuid now)) = uuid"
    "map_of (notifications (snd (createNotification s insertNotification uuid now))) uuid =
      Some (fst (createNotification s insertNotification uuid now))"
    by (simp_all add: create_defs Let_def getUser_def getComplaint_def getMeeting_def
        getScenario_def AList.update_conv')
  have update: "getUser s uk = Some user \<longrightarrow>
      map fst (users (snd (updateUser s uk user_updates))) = map fst (users s) \<and>
      (\<exists>updated. fst (updateUser s uk user_updates) = Some updated \<and>
         getUser (snd (updateUser s uk user_updates)) uk = Some updated \<and>
         u_id updated = (case pu_id user_updates of None \<Rightarrow> u_id user | Some v \<Rightarrow> v))"
    "getComplaint s ck = Some complaint \<longrightarrow>
      map fst (complaints (snd (updateComplaint s ck updates now))) = map fst (complaints s) \<and>
      (\<exists>updated. fst (updateComplaint s ck updates now) = Some updated \<and>
         getComplaint (snd (updateComplaint s ck updates now)) ck = Some updated \<and>
         c_id updated = (case pc_id updates of None \<Rightarrow> c_id complaint | Some v \<Rightarrow> v))"
    "getMeeting s mk = Some meeting \<longrightarrow>
      map fst (meetings (snd (updateMeeting s mk meeting_updates))) = map fst (meetings s) \<and>
      (\<exists>updated. fst (updateMeeting s mk meeting_updates) = Some updated \<and>
         getMeeting (snd (updateMeeting s mk meeting_updates)) mk = Some updated \<and>
         m_id updated = (case pm_id meeting_updates of None \<Rightarrow> m_id meeting | Some v \<Rightarrow> v))"
    "getScenario s sk = Some scenario \<longrightarrow>
      map fst (scenarios (snd (updateScenario s sk scenario_updates))) = map fst (scenarios s) \<and>
      (\<exists>updated. fst (updateScenario s sk scenario_updates) = Some updated \<and>
         getScenario (snd (updateScenario s sk scenario_updates)) sk = Some updated \<and>
         sc_id updated =
           (case psc_id scenario_updates of None \<Rightarrow> sc_id scenario | Some v \<Rightarrow> v))"
    "map_of (notifications s) nk = Some notification \<longrightarrow>
      map fst (notifications (snd (markNotificationRead s nk))) = map fst (notifications s) \<and>
      map_of (notifications (snd (markNotificationRead s nk))) nk =
        Some (notification\<lparr> n_isRead := True \<rparr>)"
    by (simp_all add: update_defs merge_defs Let_def getUser_def getComplaint_def
        getMeeting_def getScenario_def AList.update_conv' alist_update_keys_present spread_def)
  show ?thesis
    by (intro conjI life create update)
qed

theorem identifiers_unique_and_kept_witness:
  "id_safe_lifetime (new_MemStorage ''u0'' 5)
     [CreateComplaint harassment ''c1'' 10 10,
      UpdateComplaint ''c1'' (no_updates\<lparr> pc_status := Some ''resolved'' \<rparr>) 40,
      CreateUser (account ''ann'' ''pw-ann'') ''u1'' 41,
      MarkNotificationRead ''n1''] \<and>
   ids_are_keys (lifetime (new_MemStorage ''u0'' 5)
     [CreateComplaint harassment ''c1'' 10 10,
      UpdateComplaint ''c1'' (no_updates\<lparr> pc_status := Some ''resolved'' \<rparr>) 40,
      CreateUser (account ''ann'' ''pw-ann'') ''u1'' 41,
      MarkNotificationRead ''n1'']) \<and>
   distinct (all_ids (lifetime (new_MemStorage ''u0'' 5)
     [CreateComplaint harassment ''c1'' 10 10,
      UpdateComplaint ''c1'' (no_updates\<lparr> pc_status := Some ''resolved'' \<rparr>) 40,
      CreateUser (account ''ann'' ''pw-ann'') ''u1'' 41,
      MarkNotificationRead ''n1''])) \<and>
   getUser populated_store ''u0'' = Some sarah \<and>
   (\<exists>updated.
      fst (updateUser populated_store ''u0'' (no_user_updates\<lparr> pu_name := Some ''Sarah J.'' \<rparr>))
        = Some updated \<and>
      getUser (snd (updateUser populated_store ''u0''
                      (no_user_updates\<lparr> pu_name := Some ''Sarah J.'' \<rparr>))) ''u0''
        = Some updated \<and>
      u_id updated = ''u0'') \<and>
   getComplaint populated_store ''c1'' = Some harassment_complaint \<and>
   map fst (complaints (snd (updateComplaint populated_store ''c1''
                               (no_updates\<lparr> pc_id := Some ''c2'' \<rparr>) 40))) =
     map fst (complaints populated_store) \<and>
   (\<exists>updated.
      fst (updateComplaint populated_store ''c1'' (no_updates\<lparr> pc_id := Some ''c2'' \<rparr>) 40)
        = Some updated \<and>
      getComplaint (snd (updateComplaint populated_store ''c1''
                           (no_updates\<lparr> pc_id := Some ''c2'' \<rparr>) 40)) ''c1''
        = Some updated \<and>
      c_id updated = ''c2'') \<and>
   (\<exists>meeting updated.
      getMeeting populated_store ''m1'' = Some meeting \<and>
      fst (updateMeeting populated_store ''m1''
             (no_meeting_updates\<lparr> pm_status := Some ''completed'' \<rparr>)) = Some updated \<and>
      m_id updated = m_id meeting \<and> m_id updated = ''m1'') \<and>
   (\<exists>scenario updated.
      getScenario populated_store ''s1'' = Some scenario \<and>
      fst (updateScenario populated_store ''s1''
             (no_scenario_updates\<lparr> psc_riskLevel := Some (Some ''low'') \<rparr>)) = Some updated \<and>
      sc_id updated = sc_id scenario \<and> sc_id updated = ''s1'') \<and>
   (\<exists>notification.
      map_of (notifications populated_store) ''n1'' = Some notification \<and>
      map_of (notifications (snd (markNotificationRead populated_store ''n1''))) ''n1'' =
        Some (notification\<lparr> n_isRead := True \<rparr>) \<and>
      n_id notification = ''n1'')"
proof -
  let ?ops = "[CreateComplaint harassment ''c1'' 10 10,
      UpdateComplaint ''c1'' (no_updates\<lparr> pc_status := Some ''resolved'' \<rparr>) 40,
      CreateUser (account ''ann'' ''pw-ann'') ''u1'' 41,
      MarkNotificationRead ''n1'']"
  have safe: "id_safe_lifetime (new_MemStorage ''u0'' 5) ?ops"
    by (simp add: seeded_store_eq all_keys_def createComplaint_def updateComplaint_def
        createUser_def Let_def no_updates_def)
  have u: "getUser populated_store ''u0'' = Some sarah"
    by (simp add: populated_store_eq getUser_def)
  have c: "getComplaint populated_store ''c1'' = Some harassment_complaint"
    by (simp add: populated_store_eq getComplaint_def)
  obtain meeting where m: "getMeeting populated_store ''m1'' = Some meeting"
    and mi: "m_id meeting = ''m1''"
    by (simp add: populated_store_eq getMeeting_def)
  obtain scenario where sc: "getScenario populated_store ''s1'' = Some scenario"
    and sci: "sc_id scenario = ''s1''"
    by (simp add: populated_store_eq getScenario_def)
  obtain notification where n: "map_of (notifications populated_store) ''n1'' = Some notification"
    and ni: "n_id notification = ''n1''"
    by (simp add: populated_store_eq)
  have p: "pu_id (no_user_updates\<lparr> pu_name := Some ''Sarah J.'' \<rparr>) = None"
    "pc_id (no_updates\<lparr> pc_id := Some ''c2'' \<rparr>) = Some ''c2''"
    "pm_id (no_meeting_updates\<lparr> pm_status := Some ''completed'' \<rparr>) = None"
    "psc_id (no_scenario_updates\<lparr> psc_riskLevel := Some (Some ''low'') \<rparr>) = None"
    by (simp_all add: no_user_updates_def no_updates_def no_meeting_updates_def
        no_scenario_updates_def)
  have i: "u_id sarah = ''u0''" by (simp add: sarah_def)
  note t = identifiers_unique_and_kept [where ?uuid0.0 = "''u0''" and ?now0.0 = 5
      and operations = ?ops and s = populated_store
      and insertUser = "account ''ann'' ''pw-ann''" and uuid = "''x1''" and ?now2.0 = 40
      and insertComplaint = harassment and insertMeeting = review_meeting
      and insertScenario = "\<lparr> isc_scenario = ''A dispute'' \<rparr>"
      and insertNotification =
        "\<lparr> in_userId = ''u0'', in_message = ''Hello'', in_relatedEntityId = None,
           in_relatedEntityType = None, in_isRead = None \<rparr>"
      and uk = "''u0''" and user = sarah
      and user_updates = "no_user_updates\<lparr> pu_name := Some ''Sarah J.'' \<rparr>"
      and ck = "''c1''" and complaint = harassment_complaint
      and updates = "no_updates\<lparr> pc_id := Some ''c2'' \<rparr>" and now = 40
      and mk = "''m1''" and meeting = meeting
      and meeting_updates = "no_meeting_updates\<lparr> pm_status := Some ''completed'' \<rparr>"
      and sk = "''s1''" and scenario = scenario
      and scenario_updates = "no_scenario_updates\<lparr> psc_riskLevel := Some (Some ''low'') \<rparr>"
      and nk = "''n1''" and notification = notification]
  have life: "ids_are_keys (lifetime (new_MemStorage ''u0'' 5) ?ops) \<and>
      distinct (all_ids (lifetime (new_MemStorage ''u0'' 5) ?ops))"
    using t safe by blast
  have uu: "\<exists>updated.
      fst (updateUser populated_store ''u0'' (no_user_updates\<lparr> pu_name := Some ''Sarah J.'' \<rparr>))
        = Some updated \<and>
      getUser (snd (updateUser populated_store ''u0''
                      (no_user_updates\<lparr> pu_name := Some ''Sarah J.'' \<rparr>))) ''u0''
        = Some updated \<and>
      u_id updated = ''u0''"
    using t u p(1) i by auto
  have cu: "map fst (complaints (snd (updateComplaint populated_store ''c1''
                               (no_updates\<lparr> pc_id := Some ''c2'' \<rparr>) 40))) =
     map fst (complaints populated_store) \<and>
   (\<exists>updated.
      fst (updateComplaint populated_store ''c1'' (no_updates\<lparr> pc_id := Some ''c2'' \<rparr>) 40)
        = Some updated \<and>
      getComplaint (snd (updateComplaint populated_store ''c1''
                           (no_updates\<lparr> pc_id := Some ''c2'' \<rparr>) 40)) ''c1''
        = Some updated \<and>
      c_id updated = ''c2'')"
    using t c p(2) by auto
  have mu: "\<exists>updated.
      fst (updateMeeting populated_store ''m1''
             (no_meeting_updates\<lparr> pm_status := Some ''completed'' \<rparr>)) = Some updated \<and>
      m_id updated = m_id meeting \<and> m_id updated = ''m1''"
    using t m mi p(3) by auto
  have su: "\<exists>updated.
      fst (updateScenario populated_store ''s1''
             (no_scenario_updates\<lparr> psc_riskLevel := Some (Some ''low'') \<rparr>)) = Some updated \<and>
      sc_id updated = sc_id scenario \<and> sc_id updated = ''s1''"
    using t sc sci p(4) by auto
  have nu: "map_of (notifications (snd (markNotificationRead populated_store ''n1''))) ''n1'' =
        Some (notification\<lparr> n_isRead := True \<rparr>)"
    using t n by blast
  show ?thesis
    using safe life u uu c cu m mu sc su n nu ni by blast
qed

subsection \<open>Timestamps\<close>

text \<open>
  The claim C2 as it is written fails: \<open>Partial<Complaint>\<close> has a \<open>createdAt\<close> field
  and only \<open>updatedAt\<close> is written after the payload is spread. The complaint created at
  clock reading 10 carries, after an update whose payload gives \<open>createdAt\<close> as 3, the
  caller's value, which is also earlier than the one it had.
\<close>

theorem update_overwrites_createdAt:
  "getComplaint one_complaint_store ''c1'' = Some harassment_complaint \<and>
   c_createdAt harassment_complaint = Some (Time 10) \<and>
   getComplaint
     (snd (updateComplaint one_complaint_store ''c1''
             (no_updates\<lparr> pc_createdAt := Some (Some (Time 3)) \<rparr>) 20))
     ''c1'' = Some (harassment_complaint\<lparr> c_createdAt := Some (Time 3), c_updatedAt := Some 20 \<rparr>) \<and>
   c_createdAt (harassment_complaint\<lparr> c_createdAt := Some (Time 3), c_updatedAt := Some 20 \<rparr>)
     = Some (Time 3) \<and>
   \<not> number_ge (Date_getTime (Some (Time 3))) (Date_getTime (c_createdAt harassment_complaint))"
  by (simp add: one_complaint_store_eq getComplaint_def updateComplaint_def
      merge_complaint_def no_updates_def spread_def harassment_complaint_def Let_def
      Date_getTime_def number_ge_def)

text \<open>
  C2, amended. For every entity (user, complaint, meeting, scenario, notification)
  \<open>createdAt\<close>, and a complaint's \<open>updatedAt\<close>, is set to the store's clock reading at
  creation. Every update of a present complaint sets its \<open>updatedAt\<close> to the clock
  reading of that update, never to the payload's value, so \<open>updatedAt\<close> does not
  decrease when the clock reading is not below the stored value. \<open>createdAt\<close> of a
  user, complaint, meeting or scenario is after an update what it was when the payload
  has no \<open>createdAt\<close> field, and the payload's value when it has one; marking a
  notification read leaves its \<open>createdAt\<close>.
\<close>

theorem timestamps_set_by_store_clock:
  "u_createdAt (fst (createUser s insertUser uuid now1)) = Some now1 \<and>
   c_createdAt (fst (createComplaint s insertComplaint uuid now1 now2)) = Some (Time now1) \<and>
   c_updatedAt (fst (createComplaint s insertComplaint uuid now1 now2)) = Some now2 \<and>
   m_createdAt (fst (createMeeting s insertMeeting uuid now1)) = Some now1 \<and>
   sc_createdAt (fst (createScenario s insertScenario uuid now1)) = Some now1 \<and>
   n_createdAt (fst (createNotification s insertNotification uuid now1)) = Some now1 \<and>
   (getComplaint s ck = Some complaint \<longrightarrow>
      (\<exists>updated. fst (updateComplaint s ck updates now) = Some updated \<and>
                 getComplaint (snd (updateComplaint s ck updates now)) ck = Some updated \<and>
                 c_updatedAt updated = Some now \<and>
                 (getTime (c_updatedAt complaint) \<le> now \<longrightarrow>
                    getTime (c_updatedAt complaint) \<le> getTime (c_updatedAt updated)) \<and>
                 c_createdAt updated =
                   (case pc_createdAt updates of None \<Rightarrow> c_createdAt complaint | Some d \<Rightarrow> d))) \<and>
   (getUser s uk = Some user \<longrightarrow>
      (\<exists>updated. fst (updateUser s uk user_updates) = Some updated \<and>
                 getUser (snd (updateUser s uk user_updates)) uk = Some updated \<and>
                 u_createdAt updated =
                   (case pu_createdAt user_updates of None \<Rightarrow> u_createdAt user | Some d \<Rightarrow> d))) \<and>
   (getMeeting s mk = Some meeting \<longrightarrow>
      (\<exists>updated. fst (updateMeeting s mk meeting_updates) = Some updated \<and>
                 getMeeting (snd (updateMeeting s mk meeting_updates)) mk = Some updated \<and>
                 m_createdAt updated =
                   (case pm_createdAt meeting_updates of
                      None \<Rightarrow> m_createdAt meeting | Some d \<Rightarrow> d))) \<and>
   (getScenario s sk = Some scenario \<longrightarrow>
      (\<exists>updated. fst (updateScenario s sk scenario_updates) = Some updated \<and>
                 getScenario (snd (updateScenario s sk scenario_updates)) sk = Some updated \<and>
                 sc_createdAt updated =
                   (case psc_createdAt scenario_updates of
                      None \<Rightarrow> sc_createdAt scenario | Some d \<Rightarrow> d))) \<and>
   (map_of (notifications s) nk = Some notification \<longrightarrow>
      (\<exists>updated. map_of (notifications (snd (markNotificationRead s nk))) nk = Some updated \<and>
                 n_createdAt updated = n_createdAt notification))"
  by (simp add: getComplaint_def getUser_def getMeeting_def getScenario_def create_defs
      update_defs Let_def AList.update_conv' merge_defs spread_def getTime_def)

theorem timestamps_set_by_store_clock_witness:
  "getComplaint populated_store ''c1'' = Some harassment_complaint \<and>
   getTime (c_updatedAt harassment_complaint) \<le> 20 \<and>
   (\<exists>updated.
      getComplaint (snd (updateComplaint populated_store ''c1''
                           (no_updates\<lparr> pc_updatedAt := Some (Some 7) \<rparr>) 20)) ''c1''
        = Some updated \<and>
      c_updatedAt updated = Some 20 \<and>
      getTime (c_updatedAt harassment_complaint) \<le> getTime (c_updatedAt updated) \<and>
      c_createdAt updated = Some (Time 10)) \<and>
   getUser populated_store ''u0'' = Some sarah \<and>
   (\<exists>updated.
      getUser (snd (updateUser populated_store ''u0''
                      (no_user_updates\<lparr> pu_createdAt := Some (Some 1) \<rparr>))) ''u0''
        = Some updated \<and>
      u_createdAt updated = Some 1) \<and>
   (\<exists>meeting updated.
      getMeeting populated_store ''m1'' = Some meeting \<and>
      getMeeting (snd (updateMeeting populated_store ''m1''
                         (no_meeting_updates\<lparr> pm_status := Some ''completed'' \<rparr>))) ''m1''
        = Some updated \<and>
      m_createdAt updated = m_createdAt meeting \<and> m_createdAt updated = Some 11) \<and>
   (\<exists>scenario updated.
      getScenario populated_store ''s1'' = Some scenario \<and>
      getScenario (snd (updateScenario populated_store ''s1''
                          (no_scenario_updates\<lparr> psc_createdAt := Some None \<rparr>))) ''s1''
        = Some updated \<and>
      sc_createdAt scenario = Some 12 \<and> sc_createdAt updated = None) \<and>
   (\<exists>notification updated.
      map_of (notifications populated_store) ''n1'' = Some notification \<and>
      map_of (notifications (snd (markNotificationRead populated_store ''n1''))) ''n1''
        = Some updated \<and>
      n_createdAt updated = n_createdAt notification \<and> n_createdAt updated = Some 13)"
proof -
  have c: "getComplaint populated_store ''c1'' = Some harassment_complaint"
    by (simp add: populated_store_eq getComplaint_def)
  have h1: "getTime (c_updatedAt harassment_complaint) \<le> 20"
    "c_createdAt harassment_complaint = Some (Time 10)"
    by (simp_all add: harassment_complaint_def getTime_def)
  have u: "getUser populated_store ''u0'' = Some sarah"
    by (simp add: populated_store_eq getUser_def)
  obtain meeting where m: "getMeeting populated_store ''m1'' = Some meeting"
    and mi: "m_createdAt meeting = Some 11"
    by (simp add: populated_store_eq getMeeting_def)
  obtain scenario where sc: "getScenario populated_store ''s1'' = Some scenario"
    and sci: "sc_createdAt scenario = Some 12"
    by (simp add: populated_store_eq getScenario_def)
  obtain notification where n: "map_of (notifications populated_store) ''n1'' = Some notification"
    and ni: "n_createdAt notification = Some 13"
    by (simp add: populated_store_eq)
  have p: "pc_createdAt (no_updates\<lparr> pc_updatedAt := Some (Some 7) \<rparr>) = None"
    "pu_createdAt (no_user_updates\<lparr> pu_createdAt := Some (Some 1) \<rparr>) = Some (Some 1)"
    "pm_createdAt (no_meeting_updates\<lparr> pm_status := Some ''completed'' \<rparr>) = None"
    "psc_createdAt (no_scenario_updates\<lparr> psc_createdAt := Some None \<rparr>) = Some None"
    by (simp_all add: no_user_updates_def no_updates_def no_meeting_updates_def
        no_scenario_updates_def)
  note t = timestamps_set_by_store_clock [where s = populated_store
      and insertUser = "account ''ann'' ''pw-ann''" and uuid = "''x1''" and ?now1.0 = 40
      and ?now2.0 = 40 and insertComplaint = harassment and insertMeeting = review_meeting
      and insertScenario = "\<lparr> isc_scenario = ''A dispute'' \<rparr>"
      and insertNotification =
        "\<lparr> in_userId = ''u0'', in_message = ''Hello'', in_relatedEntityId = None,
           in_relatedEntityType = None, in_isRead = None \<rparr>"
      and ck = "''c1''" and complaint = harassment_complaint
      and updates = "no_updates\<lparr> pc_updatedAt := Some (Some 7) \<rparr>" and now = 20
      and uk = "''u0''" and user = sarah
      and user_updates = "no_user_updates\<lparr> pu_createdAt := Some (Some 1) \<rparr>"
      and mk = "''m1''" and meeting = meeting
      and meeting_updates = "no_meeting_updates\<lparr> pm_status := Some ''completed'' \<rparr>"
      and sk = "''s1''" and scenario = scenario
      and scenario_updates = "no_scenario_updates\<lparr> psc_createdAt := Some None \<rparr>"
      and nk = "''n1''" and notification = notification]
  have cu: "\<exists>updated.
      getComplaint (snd (updateComplaint populated_store ''c1''
                           (no_updates\<lparr> pc_updatedAt := Some (Some 7) \<rparr>) 20)) ''c1''
        = Some updated \<and>
      c_updatedAt updated = Some 20 \<and>
      getTime (c_updatedAt harassment_complaint) \<le> getTime (c_updatedAt updated) \<and>
      c_createdAt updated = Some (Time 10)"
    using t c h1 p(1) by auto
  have uu: "\<exists>updated.
      getUser (snd (updateUser populated_store ''u0''
                      (no_user_updates\<lparr> pu_createdAt := Some (Some 1) \<rparr>))) ''u0''
        = Some updated \<and>
      u_createdAt updated = Some 1"
    using t u p(2) by auto
  have mu: "\<exists>updated.
      getMeeting (snd (updateMeeting populated_store ''m1''
                         (no_meeting_updates\<lparr> pm_status := Some ''completed'' \<rparr>))) ''m1''
        = Some updated \<and>
      m_createdAt updated = m_createdAt meeting \<and> m_createdAt updated = Some 11"
    using t m mi p(3) by auto
  have su: "\<exists>updated.
      getScenario (snd (updateScenario populated_store ''s1''
                          (no_scenario_updates\<lparr> psc_createdAt := Some None \<rparr>))) ''s1''
        = Some updated \<and>
      sc_createdAt scenario = Some 12 \<and> sc_createdAt updated = None"
    using t sc sci p(4) by auto
  have nu: "\<exists>updated.
      map_of (notifications (snd (markNotificationRead populated_store ''n1''))) ''n1''
        = Some updated \<and>
      n_createdAt updated = n_createdAt notification \<and> n_createdAt updated = Some 13"
    using t n ni by auto
  show ?thesis
    using c h1 cu u uu m mu sc su n nu by blast
qed

subsection \<open>Partial updates\<close>

text \<open>
  The claim C3 as it is written fails twice. \<open>updatedAt\<close> is the clock reading of the
  update, and the clock counts milliseconds: an update of the title at the reading 10 at
  which the complaint was created leaves \<open>updatedAt\<close> at 10. And the single-field payload
  that holds \<open>updatedAt\<close> is not reflected: the clock reading replaces its value 7.
\<close>

theorem update_within_one_millisecond:
  "getComplaint one_complaint_store ''c1'' = Some harassment_complaint \<and>
   c_updatedAt harassment_complaint = Some 10 \<and>
   fst (updateComplaint one_complaint_store ''c1'' (no_updates\<lparr> pc_title := Some ''Bullying'' \<rparr>) 10)
     = Some (harassment_complaint\<lparr> c_title := ''Bullying'' \<rparr>) \<and>
   getComplaint
     (snd (updateComplaint one_complaint_store ''c1''
             (no_updates\<lparr> pc_title := Some ''Bullying'' \<rparr>) 10)) ''c1''
     = Some (harassment_complaint\<lparr> c_title := ''Bullying'' \<rparr>) \<and>
   c_updatedAt (harassment_complaint\<lparr> c_title := ''Bullying'' \<rparr>) = Some 10 \<and>
   \<not> getTime (c_updatedAt harassment_complaint)
       < getTime (c_updatedAt (harassment_complaint\<lparr> c_title := ''Bullying'' \<rparr>)) \<and>
   getComplaint
     (snd (updateComplaint one_complaint_store ''c1''
             (no_updates\<lparr> pc_updatedAt := Some (Some 7) \<rparr>) 20)) ''c1''
     = Some (harassment_complaint\<lparr> c_updatedAt := Some 20 \<rparr>) \<and>
   c_updatedAt (harassment_complaint\<lparr> c_updatedAt := Some 20 \<rparr>) \<noteq> Some 7"
  by (simp add: one_complaint_store_eq getComplaint_def updateComplaint_def
      merge_complaint_def no_updates_def spread_def harassment_complaint_def Let_def getTime_def)

text \<open>
  C3, amended. For every complaint present in the store and every single-field payload
  \<open>{field: v}\<close> on a field other than \<open>updatedAt\<close>, \<open>updateComplaint\<close> followed by
  \<open>getComplaint\<close> yields the complaint with that field equal to \<open>v\<close>, \<open>updatedAt\<close> equal
  to the clock reading of the update and every other field as it was; a payload
  \<open>{updatedAt: v}\<close> changes \<open>updatedAt\<close> only, to the clock reading. On every successful
  update \<open>updatedAt\<close> becomes the clock reading, which is a strict increase exactly when
  that reading is above the stored value.
\<close>

theorem single_field_update:
  assumes "getComplaint s k = Some complaint"
  shows
   "getComplaint (snd (updateComplaint s k (no_updates\<lparr> pc_id := Some v1 \<rparr>) now)) k =
      Some (complaint\<lparr> c_id := v1, c_updatedAt := Some now \<rparr>) \<and>
    getComplaint (snd (updateComplaint s k (no_updates\<lparr> pc_title := Some v2 \<rparr>) now)) k =
      Some (complaint\<lparr> c_title := v2, c_updatedAt := Some now \<rparr>) \<and>
    getComplaint (snd (updateComplaint s k (no_updates\<lparr> pc_description := Some v3 \<rparr>) now)) k =
      Some (complaint\<lparr> c_description := v3, c_updatedAt := Some now \<rparr>) \<and>
    getComplaint (snd (updateComplaint s k (no_updates\<lparr> pc_submitterId := Some v4 \<rparr>) now)) k =
      Some (complaint\<lparr> c_submitterId := v4, c_updatedAt := Some now \<rparr>) \<and>
    getComplaint (snd (updateComplaint s k (no_updates\<lparr> pc_status := Some v5 \<rparr>) now)) k =
      Some (complaint\<lparr> c_status := v5, c_updatedAt := Some now \<rparr>) \<and>
    getComplaint (snd (updateComplaint s k (no_updates\<lparr> pc_priority := Some v6 \<rparr>) now)) k =
      Some (complaint\<lparr> c_priority := v6, c_updatedAt := Some now \<rparr>) \<and>
    getComplaint (snd (updateComplaint s k (no_updates\<lparr> pc_category := Some v7 \<rparr>) now)) k =
      Some (complaint\<lparr> c_category := v7, c_updatedAt := Some now \<rparr>) \<and>
    getComplaint (snd (updateComplaint s k (no_updates\<lparr> pc_assignedTo := Some v8 \<rparr>) now)) k =
      Some (complaint\<lparr> c_assignedTo := v8, c_updatedAt := Some now \<rparr>) \<and>
    getComplaint (snd (updateComplaint s k (no_updates\<lparr> pc_aiAnalysis := Some v9 \<rparr>) now)) k =
      Some (complaint\<lparr> c_aiAnalysis := v9, c_updatedAt := Some now \<rparr>) \<and>
    getComplaint
      (snd (updateComplaint s k (no_updates\<lparr> pc_aiRecommendations := Some v10 \<rparr>) now)) k =
      Some (complaint\<lparr> c_aiRecommendations := v10, c_updatedAt := Some now \<rparr>) \<and>
    getComplaint
      (snd (updateComplaint s k (no_updates\<lparr> pc_sentimentScore := Some v11 \<rparr>) now)) k =
      Some (complaint\<lparr> c_sentimentScore := v11, c_updatedAt := Some now \<rparr>) \<and>
    getComplaint
      (snd (updateComplaint s k (no_updates\<lparr> pc_confidenceScore := Some v12 \<rparr>) now)) k =
      Some (complaint\<lparr> c_confidenceScore := v12, c_updatedAt := Some now \<rparr>) \<and>
    getComplaint (snd (updateComplaint s k (no_updates\<lparr> pc_isAnonymous := Some v13 \<rparr>) now)) k =
      Some (complaint\<lparr> c_isAnonymous := v13, c_updatedAt := Some now \<rparr>) \<and>
    getComplaint (snd (updateComplaint s k (no_updates\<lparr> pc_createdAt := Some v14 \<rparr>) now)) k =
      Some (complaint\<lparr> c_createdAt := v14, c_updatedAt := Some now \<rparr>) \<and>
    getComplaint (snd (updateComplaint s k (no_updates\<lparr> pc_updatedAt := Some v15 \<rparr>) now)) k =
      Some (complaint\<lparr> c_updatedAt := Some now \<rparr>) \<and>
    (\<exists>updated. fst (updateComplaint s k updates now) = Some updated \<and>
       c_updatedAt updated = Some now \<and>
       (getTime (c_updatedAt complaint) < getTime (c_updatedAt updated)) =
         (getTime (c_updatedAt complaint) < now))"
proof -
  have m: "\<And>u. getComplaint (snd (updateComplaint s k u now)) k =
             Some (merge_complaint complaint u now)"
    using assms by (rule get_after_update)
  have t: "fst (updateComplaint s k updates now) = Some (merge_complaint complaint updates now)"
    using assms by (simp add: getComplaint_def updateComplaint_def Let_def)
  have u: "c_updatedAt (merge_complaint complaint updates now) = Some now"
    by (simp add: merge_complaint_def)
  show ?thesis
    unfolding m t
    by (simp add: u getTime_def merge_complaint_def no_updates_def spread_def)
qed

theorem single_field_update_witness:
  "getComplaint one_complaint_store ''c1'' = Some harassment_complaint \<and>
   getComplaint (snd (updateComplaint one_complaint_store ''c1''
                        (no_updates\<lparr> pc_title := Some ''Bullying'' \<rparr>) 20)) ''c1'' =
     Some (harassment_complaint\<lparr> c_title := ''Bullying'', c_updatedAt := Some 20 \<rparr>) \<and>
   getComplaint (snd (updateComplaint one_complaint_store ''c1''
                        (no_updates\<lparr> pc_category := Some (Some ''conduct'') \<rparr>) 20)) ''c1'' =
     Some (harassment_complaint\<lparr> c_category := Some ''conduct'', c_updatedAt := Some 20 \<rparr>) \<and>
   getComplaint (snd (updateComplaint one_complaint_store ''c1''
                        (no_updates\<lparr> pc_updatedAt := Some (Some 7) \<rparr>) 20)) ''c1'' =
     Some (harassment_complaint\<lparr> c_updatedAt := Some 20 \<rparr>)"
  using single_field_update [OF get_harassment, of "''c2''" 20 "''Bullying''" "''...''" "''u1''"
      "''open''" "''medium''" "Some ''conduct''" None None None None None False "Some (Time 10)"
      "Some 7" no_updates] get_harassment
  by simp

subsection \<open>Absent identifiers\<close>

text \<open>
  C4. An update on an identifier that is not in the store raises nothing: the store's
  \<open>updateComplaint\<close> (as \<open>updateUser\<close> and \<open>updateMeeting\<close>) returns \<open>undefined\<close>, the
  handler of \<open>PATCH /api/complaints/:id\<close> answers 404, and the store is as it was.
\<close>

theorem update_absent_not_found:
  "(getComplaint s k = None \<longrightarrow>
      updateComplaint s k updates now = (None, s) \<and>
      patch_complaint s k updates now =
        (\<lparr> res_status = 404, res_body = Message ''Complaint not found'' \<rparr>, s)) \<and>
   (getUser s k = None \<longrightarrow> updateUser s k user_updates = (None, s)) \<and>
   (getMeeting s k = None \<longrightarrow> updateMeeting s k meeting_updates = (None, s))"
  by (simp add: getComplaint_def getUser_def getMeeting_def updateComplaint_def
      updateUser_def updateMeeting_def patch_complaint_def)

theorem update_absent_not_found_witness:
  "getComplaint one_complaint_store ''c2'' = None \<and>
   updateComplaint one_complaint_store ''c2'' no_updates 20 = (None, one_complaint_store) \<and>
   patch_complaint one_complaint_store ''c2'' no_updates 20 =
     (\<lparr> res_status = 404, res_body = Message ''Complaint not found'' \<rparr>, one_complaint_store) \<and>
   getUser one_complaint_store ''c2'' = None \<and>
   updateUser one_complaint_store ''c2'' no_user_updates = (None, one_complaint_store) \<and>
   getMeeting one_complaint_store ''c2'' = None \<and>
   updateMeeting one_complaint_store ''c2'' no_meeting_updates = (None, one_complaint_store)"
proof -
  have c: "getComplaint one_complaint_store ''c2'' = None"
    by (simp add: one_complaint_store_eq getComplaint_def)
  have u: "getUser one_complaint_store ''c2'' = None"
    by (simp add: one_complaint_store_eq getUser_def new_MemStorage_eq)
  have m: "getMeeting one_complaint_store ''c2'' = None"
    by (simp add: one_complaint_store_eq getMeeting_def)
  show ?thesis
    using update_absent_not_found [of one_complaint_store "''c2''" no_updates 20
        no_user_updates no_meeting_updates] c u m
    by simp
qed

subsection \<open>Complaint creation and the analysis\<close>

text \<open>
  C5. For every request that passes validation, when the call of \<open>analyzeComplaint\<close>
  fails the handler of \<open>POST /api/complaints\<close> still answers 201 with the created
  complaint; the complaint stored under the new identifier is that complaint, and its
  fields \<open>aiAnalysis\<close>, \<open>aiRecommendations\<close>, \<open>sentimentScore\<close> and \<open>confidenceScore\<close>
  are null. The handler returns a response: no error leaves it.
\<close>

theorem ai_failure_is_tolerated:
  assumes "parse reqBody = Some complaintData"
    and "analyzeComplaint (ic_title complaintData) (ic_description complaintData) = None"
  shows "\<exists>complaint s'.
           post_complaints parse analyzeComplaint stringify s reqBody uuid now1 now2 now3 =
             (\<lparr> res_status = 201, res_body = ComplaintBody complaint \<rparr>, s') \<and>
           (complaint, s') = createComplaint s complaintData uuid now1 now2 \<and>
           getComplaint s' uuid = Some complaint \<and>
           c_aiAnalysis complaint = None \<and> c_aiRecommendations complaint = None \<and>
           c_sentimentScore complaint = None \<and> c_confidenceScore complaint = None"
  using assms
  by (simp add: post_complaints_def createComplaint_def getComplaint_def Let_def
      AList.update_conv')

theorem ai_failure_is_tolerated_witness:
  "Some harassment = Some harassment \<and>
   (\<lambda>title description. None :: analysis option)
      (ic_title harassment) (ic_description harassment) = None \<and>
   post_complaints Some (\<lambda>title description. None) concat (new_MemStorage ''u0'' 5)
       harassment ''c1'' 10 10 20 =
     (\<lparr> res_status = 201, res_body = ComplaintBody harassment_complaint \<rparr>,
      one_complaint_store) \<and>
   getComplaint one_complaint_store ''c1'' = Some harassment_complaint \<and>
   c_aiAnalysis harassment_complaint = None \<and>
   c_aiRecommendations harassment_complaint = None \<and>
   c_sentimentScore harassment_complaint = None \<and>
   c_confidenceScore harassment_complaint = None"
proof -
  have h1: "Some harassment = Some harassment" by simp
  have h2: "(\<lambda>title description. None :: analysis option)
      (ic_title harassment) (ic_description harassment) = None" by simp
  from ai_failure_is_tolerated [of Some harassment harassment "\<lambda>title description. None",
      OF h1 h2, of concat "new_MemStorage ''u0'' 5" "''c1''" 10 10 20]
  show ?thesis
    by (simp add: create_harassment get_harassment harassment_complaint_def)
qed

text \<open>
  C10. For every request that passes validation, the body of the 201 response of
  \<open>POST /api/complaints\<close> is the complaint as \<open>createComplaint\<close> returned it, whatever
  the analysis does: its four analysis fields are null, its priority is the request's (or
  the default \<open>medium\<close>) and its category the request's. When the analysis succeeds, the
  complaint stored under the new identifier carries the analysis, which only a later get
  shows.
\<close>

theorem response_is_creation_snapshot:
  assumes "parse reqBody = Some complaintData"
  shows "\<exists>complaint.
           fst (post_complaints parse analyzeComplaint stringify s reqBody uuid now1 now2 now3) =
             \<lparr> res_status = 201, res_body = ComplaintBody complaint \<rparr> \<and>
           complaint = fst (createComplaint s complaintData uuid now1 now2) \<and>
           c_aiAnalysis complaint = None \<and> c_aiRecommendations complaint = None \<and>
           c_sentimentScore complaint = None \<and> c_confidenceScore complaint = None \<and>
           c_priority complaint = str_or (ic_priority complaintData) ''medium'' \<and>
           c_category complaint = ic_category complaintData \<and>
           (\<forall>a. analyzeComplaint (ic_title complaintData) (ic_description complaintData) = Some a
              \<longrightarrow> getComplaint
                    (snd (post_complaints parse analyzeComplaint stringify s reqBody uuid
                            now1 now2 now3)) uuid =
                   Some (complaint\<lparr> c_priority := a_priority a,
                           c_category := Some (a_category a),
                           c_aiAnalysis := Some (a_summary a),
                           c_aiRecommendations := Some (stringify (a_recommendations a)),
                           c_sentimentScore := Some (a_sentiment a),
                           c_confidenceScore := Some (a_confidence a),
                           c_updatedAt := Some now3 \<rparr>))"
  using assms
  by (simp add: post_complaints_def createComplaint_def getComplaint_def Let_def
      AList.update_conv' updateComplaint_def merge_complaint_def analysis_updates_def spread_def)

theorem response_is_creation_snapshot_witness:
  "fst (post_complaints Some (\<lambda>title description. Some analysis_example) concat
          (new_MemStorage ''u0'' 5) harassment ''c1'' 10 10 20) =
     \<lparr> res_status = 201, res_body = ComplaintBody harassment_complaint \<rparr> \<and>
   c_aiAnalysis harassment_complaint = None \<and>
   c_priority harassment_complaint = ''medium'' \<and>
   getComplaint
     (snd (post_complaints Some (\<lambda>title description. Some analysis_example) concat
             (new_MemStorage ''u0'' 5) harassment ''c1'' 10 10 20)) ''c1'' =
     Some (harassment_complaint\<lparr> c_priority := ''high'',
             c_category := Some ''harassment'',
             c_aiAnalysis := Some ''summary'',
             c_aiRecommendations := Some ''meet'',
             c_sentimentScore := Some (-1),
             c_confidenceScore := Some 1,
             c_updatedAt := Some 20 \<rparr>)"
proof -
  have h: "Some harassment = Some harassment" by simp
  from response_is_creation_snapshot [of Some harassment harassment, OF h,
      of "\<lambda>title description. Some analysis_example" concat "new_MemStorage ''u0'' 5"
        "''c1''" 10 10 20]
  show ?thesis
    by (simp add: create_harassment analysis_example_def harassment_complaint_def)
qed

subsection \<open>Registration and login\<close>

text \<open>
  C6. A registration whose body fails validation is answered 400 and leaves the store as
  it was. For every registration that passes validation: when its phone or its email
  equals that of a user in the store, \<open>POST /api/auth/register\<close> answers 400 and the
  store is as it was; otherwise it answers 201 with the created user, every field but the
  password, that user is stored under the new identifier and, when the identifier is new,
  is the one user added to the collection.
\<close>

theorem register_rejects_duplicates:
  "(parse reqBody = None \<longrightarrow>
      post_auth_register parse s reqBody uuid now =
        (\<lparr> res_status = 400, res_body = Message ''Registration failed'' \<rparr>, s)) \<and>
   (parse reqBody = Some userData \<and>
    (\<exists>u \<in> set (getUsers s). u_phone u = iu_phone userData \<or> u_email u = iu_email userData) \<longrightarrow>
      res_status (fst (post_auth_register parse s reqBody uuid now)) = 400 \<and>
      snd (post_auth_register parse s reqBody uuid now) = s) \<and>
   (parse reqBody = Some userData \<and>
    \<not> (\<exists>u \<in> set (getUsers s). u_phone u = iu_phone userData \<or> u_email u = iu_email userData) \<longrightarrow>
      fst (post_auth_register parse s reqBody uuid now) =
        \<lparr> res_status = 201,
          res_body =
            UserMessage
              \<lparr> w_id = uuid, w_username = iu_username userData, w_email = iu_email userData,
                w_phone = iu_phone userData, w_name = iu_name userData,
                w_role = str_or (iu_role userData) ''employee'',
                w_department = str_or_null (iu_department userData),
                w_isActive = nullish_or (iu_isActive userData) True,
                w_lastLogin = None, w_createdAt = Some now \<rparr>
              ''Registration successful'' \<rparr> \<and>
      getUser (snd (post_auth_register parse s reqBody uuid now)) uuid =
        Some \<lparr> u_id = uuid, u_username = iu_username userData,
               u_password = iu_password userData, u_email = iu_email userData,
               u_phone = iu_phone userData, u_name = iu_name userData,
               u_role = str_or (iu_role userData) ''employee'',
               u_department = str_or_null (iu_department userData),
               u_isActive = nullish_or (iu_isActive userData) True,
               u_lastLogin = None, u_createdAt = Some now \<rparr> \<and>
      snd (post_auth_register parse s reqBody uuid now) =
        snd (createUser s userData uuid now) \<and>
      (getUser s uuid = None \<longrightarrow>
         getUsers (snd (post_auth_register parse s reqBody uuid now)) =
           getUsers s @
             [\<lparr> u_id = uuid, u_username = iu_username userData,
                u_password = iu_password userData, u_email = iu_email userData,
                u_phone = iu_phone userData, u_name = iu_name userData,
                u_role = str_or (iu_role userData) ''employee'',
                u_department = str_or_null (iu_department userData),
                u_isActive = nullish_or (iu_isActive userData) True,
                u_lastLogin = None, u_createdAt = Some now \<rparr>]))"
proof -
  let ?P = "\<lambda>u. u_phone u = iu_phone userData \<or> u_email u = iu_email userData"
  let ?r = "post_auth_register parse s reqBody uuid now"
  let ?new = "\<lparr> u_id = uuid, u_username = iu_username userData,
               u_password = iu_password userData, u_email = iu_email userData,
               u_phone = iu_phone userData, u_name = iu_name userData,
               u_role = str_or (iu_role userData) ''employee'',
               u_department = str_or_null (iu_department userData),
               u_isActive = nullish_or (iu_isActive userData) True,
               u_lastLogin = None, u_createdAt = Some now \<rparr>"
  have dup: "(\<exists>u \<in> set (getUsers s). ?P u) \<Longrightarrow> \<exists>e. find ?P (getUsers s) = Some e"
    by (cases "find ?P (getUsers s)") (auto simp: find_None_iff)
  have nodup: "\<not> (\<exists>u \<in> set (getUsers s). ?P u) \<Longrightarrow> find ?P (getUsers s) = None"
    by (auto simp: find_None_iff)
  have cu: "createUser s userData uuid now =
              (?new, s\<lparr> users := AList.update uuid ?new (users s) \<rparr>)"
    by (simp add: createUser_def Let_def)
  show ?thesis
  proof (intro conjI impI)
    assume "parse reqBody = None"
    then show "?r = (\<lparr> res_status = 400, res_body = Message ''Registration failed'' \<rparr>, s)"
      by (simp add: post_auth_register_def)
  next
    assume a: "parse reqBody = Some userData \<and> (\<exists>u \<in> set (getUsers s). ?P u)"
    then obtain e where "find ?P (getUsers s) = Some e" using dup by blast
    with a show "res_status (fst ?r) = 400" and "snd ?r = s"
      by (simp_all add: post_auth_register_def)
  next
    assume a: "parse reqBody = Some userData \<and> \<not> (\<exists>u \<in> set (getUsers s). ?P u)"
    then have f: "find ?P (getUsers s) = None" using nodup by blast
    have r: "?r =
        (\<lparr> res_status = 201,
           res_body = UserMessage (without_password ?new) ''Registration successful'' \<rparr>,
         s\<lparr> users := AList.update uuid ?new (users s) \<rparr>)"
      using a f by (simp add: post_auth_register_def cu)
    show "fst ?r =
        \<lparr> res_status = 201,
          res_body =
            UserMessage
              \<lparr> w_id = uuid, w_username = iu_username userData, w_email = iu_email userData,
                w_phone = iu_phone userData, w_name = iu_name userData,
                w_role = str_or (iu_role userData) ''employee'',
                w_department = str_or_null (iu_department userData),
                w_isActive = nullish_or (iu_isActive userData) True,
                w_lastLogin = None, w_createdAt = Some now \<rparr>
              ''Registration successful'' \<rparr>"
      by (simp add: r without_password_def)
    show "getUser (snd ?r) uuid = Some ?new"
      by (simp add: r getUser_def AList.update_conv')
    show "snd ?r = snd (createUser s userData uuid now)"
      by (simp add: r cu)
    assume "getUser s uuid = None"
    then show "getUsers (snd ?r) = getUsers s @ [?new]"
      by (simp add: r getUser_def getUsers_def alist_update_absent)
  qed
qed

theorem register_rejects_duplicates_witness:
  "post_auth_register (\<lambda>b. None) (new_MemStorage ''u0'' 5) (account ''ann'' ''pw-ann'') ''u1'' 6 =
     (\<lparr> res_status = 400, res_body = Message ''Registration failed'' \<rparr>,
      new_MemStorage ''u0'' 5) \<and>
   (\<exists>u \<in> set (getUsers (new_MemStorage ''u0'' 5)).
      u_phone u = iu_phone ((account ''ann'' ''pw-ann'')\<lparr> iu_phone := ''+1234567890'' \<rparr>) \<or>
      u_email u = iu_email ((account ''ann'' ''pw-ann'')\<lparr> iu_phone := ''+1234567890'' \<rparr>)) \<and>
   res_status (fst (post_auth_register Some (new_MemStorage ''u0'' 5)
                      ((account ''ann'' ''pw-ann'')\<lparr> iu_phone := ''+1234567890'' \<rparr>) ''u1'' 6))
     = 400 \<and>
   snd (post_auth_register Some (new_MemStorage ''u0'' 5)
          ((account ''ann'' ''pw-ann'')\<lparr> iu_phone := ''+1234567890'' \<rparr>) ''u1'' 6)
     = new_MemStorage ''u0'' 5 \<and>
   \<not> (\<exists>u \<in> set (getUsers (new_MemStorage ''u0'' 5)).
      u_phone u = iu_phone (account ''ann'' ''pw-ann'') \<or>
      u_email u = iu_email (account ''ann'' ''pw-ann'')) \<and>
   getUser (new_MemStorage ''u0'' 5) ''u1'' = None \<and>
   fst (post_auth_register Some (new_MemStorage ''u0'' 5) (account ''ann'' ''pw-ann'') ''u1'' 6) =
     \<lparr> res_status = 201,
       res_body =
         UserMessage
           \<lparr> w_id = ''u1'', w_username = ''ann'', w_email = ''ann@company.com'',
             w_phone = ''+15550100'', w_name = ''ann'', w_role = ''employee'',
             w_department = None, w_isActive = True, w_lastLogin = None,
             w_createdAt = Some 6 \<rparr>
           ''Registration successful'' \<rparr> \<and>
   getUsers (snd (post_auth_register Some (new_MemStorage ''u0'' 5)
                    (account ''ann'' ''pw-ann'') ''u1'' 6)) = [sarah, ann]"
proof -
  let ?s = "new_MemStorage ''u0'' 5"
  let ?dup = "(account ''ann'' ''pw-ann'')\<lparr> iu_phone := ''+1234567890'' \<rparr>"
  have h1: "\<exists>u \<in> set (getUsers ?s). u_phone u = iu_phone ?dup \<or> u_email u = iu_email ?dup"
    by (simp add: new_MemStorage_eq getUsers_def account_def)
  have h2: "\<not> (\<exists>u \<in> set (getUsers ?s).
      u_phone u = iu_phone (account ''ann'' ''pw-ann'') \<or>
      u_email u = iu_email (account ''ann'' ''pw-ann''))"
    by (simp add: new_MemStorage_eq getUsers_def account_def)
  have h3: "getUser ?s ''u1'' = None"
    by (simp add: new_MemStorage_eq getUser_def)
  have g: "getUsers ?s = [sarah]"
    by (simp add: seeded_store_eq getUsers_def)
  have a: "post_auth_register (\<lambda>b. None) ?s (account ''ann'' ''pw-ann'') ''u1'' 6 =
     (\<lparr> res_status = 400, res_body = Message ''Registration failed'' \<rparr>, ?s)"
    using register_rejects_duplicates [of "\<lambda>b. None" "account ''ann'' ''pw-ann''" ?s "''u1''" 6]
    by simp
  have b: "res_status (fst (post_auth_register Some ?s ?dup ''u1'' 6)) = 400 \<and>
           snd (post_auth_register Some ?s ?dup ''u1'' 6) = ?s"
    using register_rejects_duplicates [of Some ?dup ?s "''u1''" 6 ?dup] h1 by blast
  have c: "fst (post_auth_register Some ?s (account ''ann'' ''pw-ann'') ''u1'' 6) =
     \<lparr> res_status = 201,
       res_body =
         UserMessage
           \<lparr> w_id = ''u1'', w_username = ''ann'', w_email = ''ann@company.com'',
             w_phone = ''+15550100'', w_name = ''ann'', w_role = ''employee'',
             w_department = None, w_isActive = True, w_lastLogin = None,
             w_createdAt = Some 6 \<rparr>
           ''Registration successful'' \<rparr> \<and>
     getUsers (snd (post_auth_register Some ?s (account ''ann'' ''pw-ann'') ''u1'' 6)) =
       [sarah, ann]"
    using register_rejects_duplicates [of Some "account ''ann'' ''pw-ann''" ?s "''u1''" 6
        "account ''ann'' ''pw-ann''"] h2 h3 g
    by (simp add: account_def js_defs ann_def createUser_def Let_def seeded_store_eq
        getUsers_def)
  show ?thesis using a b c h1 h2 h3 by blast
qed

text \<open>
  The claim C7 as it is written fails where two accounts share a phone number, which
  \<open>POST /api/users\<close> allows: the handler does not look a user up by phone and then
  compare the password, it searches for a user with both. In a fresh store with two such
  accounts, a user with the phone of the request has another password than the
  request's, and the login is answered 200.
\<close>

theorem login_with_shared_phone:
  "getUser shared_phone_store ''u1'' = Some ann \<and>
   u_phone ann = ''+15550100'' \<and>
   u_password ann \<noteq> ''pw-bob'' \<and>
   res_status (fst (post_auth_login shared_phone_store
                      \<lparr> lb_phone = Some ''+15550100'', lb_password = Some ''pw-bob'' \<rparr> 30)) = 200"
  by (simp add: shared_phone_store_eq post_auth_login_def getUsers_def getUser_def falsy_def
      ann_def sarah_def Let_def updateUser_def)

text \<open>
  C7, amended. A login whose phone or password is absent or empty is answered 400. For
  a login with a non-empty phone and password, \<open>POST /api/auth/login\<close> answers 401 and
  leaves the store as it was when no stored user has that phone, when every stored user
  with that phone has a different password, or when the first stored user with that phone
  and password has \<open>isActive\<close> false. When that first user is active it answers 200 with
  that user, every field but the password, and whoever is stored under that user's
  identifier gets the clock reading as \<open>lastLogin\<close>, the store being otherwise as it
  was (and wholly as it was when nobody is stored under that identifier).
\<close>

theorem login_outcomes:
  "(falsy (lb_phone reqBody) \<or> falsy (lb_password reqBody) \<longrightarrow>
      post_auth_login s reqBody now =
        (\<lparr> res_status = 400,
           res_body = Message ''Phone number and password are required'' \<rparr>, s)) \<and>
   (lb_phone reqBody = Some phone \<and> phone \<noteq> [] \<and>
    lb_password reqBody = Some password \<and> password \<noteq> [] \<longrightarrow>
      ((\<forall>u \<in> set (getUsers s). u_phone u \<noteq> phone) \<longrightarrow>
         post_auth_login s reqBody now =
           (\<lparr> res_status = 401, res_body = Message ''Invalid phone number or password'' \<rparr>, s)) \<and>
      ((\<forall>u \<in> set (getUsers s). u_phone u = phone \<longrightarrow> u_password u \<noteq> password) \<longrightarrow>
         post_auth_login s reqBody now =
           (\<lparr> res_status = 401, res_body = Message ''Invalid phone number or password'' \<rparr>, s)) \<and>
      (\<forall>user. find (\<lambda>u. u_phone u = phone \<and> u_password u = password) (getUsers s) = Some user
         \<longrightarrow> (\<not> u_isActive user \<longrightarrow>
                 post_auth_login s reqBody now =
                   (\<lparr> res_status = 401,
                      res_body = Message ''Invalid phone number or password'' \<rparr>, s)) \<and>
              (u_isActive user \<longrightarrow>
                 fst (post_auth_login s reqBody now) =
                   \<lparr> res_status = 200,
                     res_body =
                       UserMessage
                         \<lparr> w_id = u_id user, w_username = u_username user,
                           w_email = u_email user, w_phone = u_phone user,
                           w_name = u_name user, w_role = u_role user,
                           w_department = u_department user, w_isActive = u_isActive user,
                           w_lastLogin = u_lastLogin user, w_createdAt = u_createdAt user \<rparr>
                         ''Login successful'' \<rparr> \<and>
                 (getUser s (u_id user) = None \<longrightarrow> snd (post_auth_login s reqBody now) = s) \<and>
                 (\<forall>stored. getUser s (u_id user) = Some stored \<longrightarrow>
                    snd (post_auth_login s reqBody now) =
                      s\<lparr> users := AList.update (u_id user) (stored\<lparr> u_lastLogin := Some now \<rparr>)
                                    (users s) \<rparr> \<and>
                    getUser (snd (post_auth_login s reqBody now)) (u_id user) =
                      Some (stored\<lparr> u_lastLogin := Some now \<rparr>)))))"
proof (intro conjI impI allI)
  assume "falsy (lb_phone reqBody) \<or> falsy (lb_password reqBody)"
  then show "post_auth_login s reqBody now =
        (\<lparr> res_status = 400,
           res_body = Message ''Phone number and password are required'' \<rparr>, s)"
    by (simp add: post_auth_login_def)
next
  assume b: "lb_phone reqBody = Some phone \<and> phone \<noteq> [] \<and>
    lb_password reqBody = Some password \<and> password \<noteq> []"
    and "\<forall>u \<in> set (getUsers s). u_phone u \<noteq> phone"
  then have "find (\<lambda>u. u_phone u = phone \<and> u_password u = password) (getUsers s) = None"
    by (auto simp: find_None_iff)
  with b show "post_auth_login s reqBody now =
           (\<lparr> res_status = 401, res_body = Message ''Invalid phone number or password'' \<rparr>, s)"
    by (simp add: post_auth_login_def falsy_def)
next
  assume b: "lb_phone reqBody = Some phone \<and> phone \<noteq> [] \<and>
    lb_password reqBody = Some password \<and> password \<noteq> []"
    and "\<forall>u \<in> set (getUsers s). u_phone u = phone \<longrightarrow> u_password u \<noteq> password"
  then have "find (\<lambda>u. u_phone u = phone \<and> u_password u = password) (getUsers s) = None"
    by (auto simp: find_None_iff)
  with b show "post_auth_login s reqBody now =
           (\<lparr> res_status = 401, res_body = Message ''Invalid phone number or password'' \<rparr>, s)"
    by (simp add: post_auth_login_def falsy_def)
next
  fix user
  assume "lb_phone reqBody = Some phone \<and> phone \<noteq> [] \<and>
    lb_password reqBody = Some password \<and> password \<noteq> []"
    and "find (\<lambda>u. u_phone u = phone \<and> u_password u = password) (getUsers s) = Some user"
    and "\<not> u_isActive user"
  then show "post_auth_login s reqBody now =
           (\<lparr> res_status = 401, res_body = Message ''Invalid phone number or password'' \<rparr>, s)"
    by (simp add: post_auth_login_def falsy_def)
next
  fix user
  assume b: "lb_phone reqBody = Some phone \<and> phone \<noteq> [] \<and>
    lb_password reqBody = Some password \<and> password \<noteq> []"
    and f: "find (\<lambda>u. u_phone u = phone \<and> u_password u = password) (getUsers s) = Some user"
    and a: "u_isActive user"
  then show "fst (post_auth_login s reqBody now) =
                   \<lparr> res_status = 200,
                     res_body =
                       UserMessage
                         \<lparr> w_id = u_id user, w_username = u_username user,
                           w_email = u_email user, w_phone = u_phone user,
                           w_name = u_name user, w_role = u_role user,
                           w_department = u_department user, w_isActive = u_isActive user,
                           w_lastLogin = u_lastLogin user, w_createdAt = u_createdAt user \<rparr>
                         ''Login successful'' \<rparr>"
    by (simp add: post_auth_login_def falsy_def Let_def without_password_def)
  {
    assume "getUser s (u_id user) = None"
    with b f a show "snd (post_auth_login s reqBody now) = s"
      by (simp add: post_auth_login_def falsy_def Let_def updateUser_def getUser_def)
  }
  fix stored
  assume st: "getUser s (u_id user) = Some stored"
  have m: "merge_user stored
             \<lparr> pu_id = None, pu_username = None, pu_password = None, pu_email = None,
               pu_phone = None, pu_name = None, pu_role = None, pu_department = None,
               pu_isActive = None, pu_lastLogin = Some (Some now), pu_createdAt = None \<rparr> =
           stored\<lparr> u_lastLogin := Some now \<rparr>"
    by (simp add: merge_user_def spread_def)
  from b f a st show "snd (post_auth_login s reqBody now) =
      s\<lparr> users := AList.update (u_id user) (stored\<lparr> u_lastLogin := Some now \<rparr>) (users s) \<rparr>"
    by (simp add: post_auth_login_def falsy_def Let_def updateUser_def getUser_def m)
  from b f a st show "getUser (snd (post_auth_login s reqBody now)) (u_id user) =
                      Some (stored\<lparr> u_lastLogin := Some now \<rparr>)"
    by (simp add: post_auth_login_def falsy_def Let_def updateUser_def getUser_def m
        AList.update_conv')
qed

theorem login_outcomes_witness:
  "falsy (lb_phone \<lparr> lb_phone = Some [], lb_password = Some ''pw-ann'' \<rparr>) \<and>
   res_status (fst (post_auth_login shared_phone_store
                      \<lparr> lb_phone = Some [], lb_password = Some ''pw-ann'' \<rparr> 30)) = 400 \<and>
   res_status (fst (post_auth_login shared_phone_store
                      \<lparr> lb_phone = Some ''+15550199'', lb_password = Some ''pw-ann'' \<rparr> 30)) = 401 \<and>
   res_status (fst (post_auth_login shared_phone_store
                      \<lparr> lb_phone = Some ''+15550100'', lb_password = Some ''pw-cat'' \<rparr> 30)) = 401 \<and>
   post_auth_login inactive_store
       \<lparr> lb_phone = Some ''+15550100'', lb_password = Some ''pw-cat'' \<rparr> 30 =
     (\<lparr> res_status = 401, res_body = Message ''Invalid phone number or password'' \<rparr>,
      inactive_store) \<and>
   fst (post_auth_login shared_phone_store
          \<lparr> lb_phone = Some ''+15550100'', lb_password = Some ''pw-ann'' \<rparr> 30) =
     \<lparr> res_status = 200,
       res_body =
         UserMessage
           \<lparr> w_id = ''u1'', w_username = ''ann'', w_email = ''ann@company.com'',
             w_phone = ''+15550100'', w_name = ''ann'', w_role = ''employee'',
             w_department = None, w_isActive = True, w_lastLogin = None,
             w_createdAt = Some 6 \<rparr>
           ''Login successful'' \<rparr> \<and>
   getUser (snd (post_auth_login shared_phone_store
                   \<lparr> lb_phone = Some ''+15550100'', lb_password = Some ''pw-ann'' \<rparr> 30)) ''u1''
     = Some (ann\<lparr> u_lastLogin := Some 30 \<rparr>) \<and>
   getUser renamed_store ''zz'' = None \<and>
   res_status (fst (post_auth_login renamed_store
                      \<lparr> lb_phone = Some ''+1234567890'', lb_password = Some ''password123'' \<rparr>
                      30)) = 200 \<and>
   snd (post_auth_login renamed_store
          \<lparr> lb_phone = Some ''+1234567890'', lb_password = Some ''password123'' \<rparr> 30)
     = renamed_store"
proof -
  let ?cat = "\<lparr> u_id = ''u3'', u_username = ''cat'', u_password = ''pw-cat'',
                u_email = ''cat@company.com'', u_phone = ''+15550100'', u_name = ''cat'',
                u_role = ''employee'', u_department = None, u_isActive = False,
                u_lastLogin = None, u_createdAt = Some 8 \<rparr>"
  have e: "falsy (lb_phone \<lparr> lb_phone = Some [], lb_password = Some ''pw-ann'' \<rparr>)"
    by (simp add: falsy_def)
  have a: "res_status (fst (post_auth_login shared_phone_store
                      \<lparr> lb_phone = Some [], lb_password = Some ''pw-ann'' \<rparr> 30)) = 400"
    using login_outcomes [of "\<lparr> lb_phone = Some [], lb_password = Some ''pw-ann'' \<rparr>"
        shared_phone_store 30] e
    by simp
  have "\<forall>u \<in> set (getUsers shared_phone_store). u_phone u \<noteq> ''+15550199''"
    by (simp add: shared_phone_store_eq getUsers_def sarah_def ann_def)
  then have b: "res_status (fst (post_auth_login shared_phone_store
                      \<lparr> lb_phone = Some ''+15550199'', lb_password = Some ''pw-ann'' \<rparr> 30)) = 401"
    using login_outcomes [of "\<lparr> lb_phone = Some ''+15550199'', lb_password = Some ''pw-ann'' \<rparr>"
        shared_phone_store 30 "''+15550199''" "''pw-ann''"]
    by simp
  have "\<forall>u \<in> set (getUsers shared_phone_store).
          u_phone u = ''+15550100'' \<longrightarrow> u_password u \<noteq> ''pw-cat''"
    by (simp add: shared_phone_store_eq getUsers_def sarah_def ann_def)
  then have c: "res_status (fst (post_auth_login shared_phone_store
                      \<lparr> lb_phone = Some ''+15550100'', lb_password = Some ''pw-cat'' \<rparr> 30)) = 401"
    using login_outcomes [of "\<lparr> lb_phone = Some ''+15550100'', lb_password = Some ''pw-cat'' \<rparr>"
        shared_phone_store 30 "''+15550100''" "''pw-cat''"]
    by simp
  have "find (\<lambda>u. u_phone u = ''+15550100'' \<and> u_password u = ''pw-cat'')
          (getUsers inactive_store) = Some ?cat"
    by (simp add: inactive_store_eq getUsers_def sarah_def)
  then have d: "post_auth_login inactive_store
          \<lparr> lb_phone = Some ''+15550100'', lb_password = Some ''pw-cat'' \<rparr> 30 =
        (\<lparr> res_status = 401, res_body = Message ''Invalid phone number or password'' \<rparr>,
         inactive_store)"
    using login_outcomes [of "\<lparr> lb_phone = Some ''+15550100'', lb_password = Some ''pw-cat'' \<rparr>"
        inactive_store 30 "''+15550100''" "''pw-cat''"]
    by simp
  have f: "find (\<lambda>u. u_phone u = ''+15550100'' \<and> u_password u = ''pw-ann'')
          (getUsers shared_phone_store) = Some ann"
    by (simp add: shared_phone_store_eq getUsers_def sarah_def ann_def)
  have g: "getUser shared_phone_store (u_id ann) = Some ann" "u_isActive ann" "u_id ann = ''u1''"
    by (simp_all add: shared_phone_store_eq getUser_def ann_def)
  have ok: "fst (post_auth_login shared_phone_store
                   \<lparr> lb_phone = Some ''+15550100'', lb_password = Some ''pw-ann'' \<rparr> 30) =
              \<lparr> res_status = 200,
                res_body =
                  UserMessage
                    \<lparr> w_id = ''u1'', w_username = ''ann'', w_email = ''ann@company.com'',
                      w_phone = ''+15550100'', w_name = ''ann'', w_role = ''employee'',
                      w_department = None, w_isActive = True, w_lastLogin = None,
                      w_createdAt = Some 6 \<rparr>
                    ''Login successful'' \<rparr> \<and>
            getUser (snd (post_auth_login shared_phone_store
                      \<lparr> lb_phone = Some ''+15550100'', lb_password = Some ''pw-ann'' \<rparr> 30))
              ''u1'' = Some (ann\<lparr> u_lastLogin := Some 30 \<rparr>)"
    using login_outcomes [of "\<lparr> lb_phone = Some ''+15550100'', lb_password = Some ''pw-ann'' \<rparr>"
        shared_phone_store 30 "''+15550100''" "''pw-ann''"] f g
    by (simp add: ann_def getUser_def shared_phone_store_eq sarah_def)
  have r: "find (\<lambda>u. u_phone u = ''+1234567890'' \<and> u_password u = ''password123'')
          (getUsers renamed_store) = Some (sarah\<lparr> u_id := ''zz'' \<rparr>)"
    by (simp add: renamed_store_eq getUsers_def sarah_def)
  have rn: "getUser renamed_store (u_id (sarah\<lparr> u_id := ''zz'' \<rparr>)) = None"
    "u_isActive (sarah\<lparr> u_id := ''zz'' \<rparr>)"
    by (simp_all add: renamed_store_eq getUser_def sarah_def)
  have rz: "getUser renamed_store ''zz'' = None"
    using rn(1) by simp
  have ren: "res_status (fst (post_auth_login renamed_store
                      \<lparr> lb_phone = Some ''+1234567890'', lb_password = Some ''password123'' \<rparr>
                      30)) = 200 \<and>
     snd (post_auth_login renamed_store
          \<lparr> lb_phone = Some ''+1234567890'', lb_password = Some ''password123'' \<rparr> 30)
       = renamed_store"
    using login_outcomes [of
        "\<lparr> lb_phone = Some ''+1234567890'', lb_password = Some ''password123'' \<rparr>"
        renamed_store 30 "''+1234567890''" "''password123''"] r rn
    by simp
  show ?thesis using e a b c d ok rz ren by simp
qed

subsection \<open>Listings\<close>




subsection \<open>The fresh store\<close>

text \<open>
  C9. A newly constructed \<open>MemStorage\<close> holds exactly one user: the HR manager Sarah
  Johnson, with username \<open>sarah.johnson\<close>, phone \<open>+1234567890\<close> and the password
  \<open>password123\<close> in plain text. Listing its users gives one element, and a registration
  that passes validation with the phone \<open>+1234567890\<close> is answered 400 and leaves the
  store as it was.
\<close>

theorem fresh_store_seeded:
  "getUsers (new_MemStorage uuid now) =
     [\<lparr> u_id = uuid, u_username = ''sarah.johnson'',
        u_password = ''password123'', u_email = ''sarah.johnson@company.com'',
        u_phone = ''+1234567890'', u_name = ''Sarah Johnson'',
        u_role = ''hr_manager'', u_department = Some ''Human Resources'',
        u_isActive = True, u_lastLogin = None, u_createdAt = Some now \<rparr>] \<and>
   length (getUsers (new_MemStorage uuid now)) = 1 \<and>
   (parse reqBody = Some userData \<and> iu_phone userData = ''+1234567890'' \<longrightarrow>
      post_auth_register parse (new_MemStorage uuid now) reqBody uuid' now' =
        (\<lparr> res_status = 400, res_body = Message ''Phone number already registered'' \<rparr>,
         new_MemStorage uuid now))"
  by (simp add: new_MemStorage_eq getUsers_def post_auth_register_def)

theorem fresh_store_seeded_witness:
  "getUsers (new_MemStorage ''u0'' 5) =
     [\<lparr> u_id = ''u0'', u_username = ''sarah.johnson'',
        u_password = ''password123'', u_email = ''sarah.johnson@company.com'',
        u_phone = ''+1234567890'', u_name = ''Sarah Johnson'',
        u_role = ''hr_manager'', u_department = Some ''Human Resources'',
        u_isActive = True, u_lastLogin = None, u_createdAt = Some 5 \<rparr>] \<and>
   iu_phone ((account ''ann'' ''pw-ann'')\<lparr> iu_phone := ''+1234567890'' \<rparr>) = ''+1234567890'' \<and>
   post_auth_register Some (new_MemStorage ''u0'' 5)
       ((account ''ann'' ''pw-ann'')\<lparr> iu_phone := ''+1234567890'' \<rparr>) ''u1'' 6 =
     (\<lparr> res_status = 400, res_body = Message ''Phone number already registered'' \<rparr>,
      new_MemStorage ''u0'' 5)"
proof -
  have p: "iu_phone ((account ''ann'' ''pw-ann'')\<lparr> iu_phone := ''+1234567890'' \<rparr>) = ''+1234567890''"
    by simp
  show ?thesis
    using fresh_store_seeded [of "''u0''" 5 Some
        "(account ''ann'' ''pw-ann'')\<lparr> iu_phone := ''+1234567890'' \<rparr>"
        "(account ''ann'' ''pw-ann'')\<lparr> iu_phone := ''+1234567890'' \<rparr>" "''u1''" 6] p
    by simp
qed

end
